theory Spec2Isabelle
  imports Complex_Main "HOL-Library.Word"
begin

unbundle bit_operations_syntax

section \<open>Half-float decoding (webgl-utils.js)\<close>

text \<open>
  \<^verbatim>\<open>Math.clz32\<close>: the number of leading zero bits of a 32-bit value, 32 for zero.
  The scan starts at bit 31 and stops at the first bit that is set.
\<close>

fun clz_from :: "nat \<Rightarrow> 32 word \<Rightarrow> nat" where
  "clz_from 0 w = 0"
| "clz_from (Suc k) w = (if bit w k then 0 else Suc (clz_from k w))"

definition clz32 :: "32 word \<Rightarrow> nat" where
  "clz32 w = clz_from 32 w"

text \<open>
  \<^verbatim>\<open>uInt16ToFloat32(hf)\<close>. The argument is an element of a \<^verbatim>\<open>Uint16Array\<close>; the
  bitwise operators of JavaScript work on 32-bit integers, and the result \<^verbatim>\<open>f\<close> is stored
  into a \<^verbatim>\<open>Uint32Array\<close> cell whose bytes are read back through a \<^verbatim>\<open>Float32Array\<close> view.
  The function below returns the 32-bit pattern stored in that cell; its reading as a
  binary32 number is \<open>float32Value\<close> further down. A shift count is taken modulo 32, as
  the language does.
\<close>

definition uInt16ToFloat32 :: "16 word \<Rightarrow> 32 word" where
  "uInt16ToFloat32 hf16 =
    (let hf = (ucast hf16 :: 32 word);
         f = push_bit 16 (hf AND 0x8000);
         expo = drop_bit 10 (hf AND 0x7C00)
     in if expo = 0 then
          (let frac = hf AND 0x03FF
           in if frac \<noteq> 0 then
                (let extra = clz32 frac - 21
                 in f OR (push_bit 23 (of_nat (113 - extra))
                          OR push_bit ((13 + extra) mod 32) (hf AND 0x01FF)))
              else f)
        else if expo < 31 then
          f OR (push_bit 23 (expo + 112) OR push_bit 13 (hf AND 0x03FF))
        else
          f OR (0x7F800000 OR push_bit 13 (hf AND 0x03FF)))"

text \<open>
  The numbers the two formats denote, by IEEE 754: a sign, and either a magnitude, an
  infinity or a NaN. \<open>Finite True 0\<close> is the negative zero.
\<close>

datatype fpvalue = Finite bool real | Infinity bool | NaN

definition float16Value :: "16 word \<Rightarrow> fpvalue" where
  "float16Value h =
    (let s = bit h 15;
         e = unat (drop_bit 10 h AND 0x1F);
         m = unat (h AND 0x3FF)
     in if e = 31 then (if m = 0 then Infinity s else NaN)
        else if e = 0 then Finite s (real m / 2 ^ 24)
        else Finite s ((1 + real m / 2 ^ 10) * 2 ^ e / 2 ^ 15))"

definition float32Value :: "32 word \<Rightarrow> fpvalue" where
  "float32Value w =
    (let s = bit w 31;
         e = unat (drop_bit 23 w AND 0xFF);
         m = unat (w AND 0x7FFFFF)
     in if e = 255 then (if m = 0 then Infinity s else NaN)
        else if e = 0 then Finite s (real m / 2 ^ 149)
        else Finite s ((1 + real m / 2 ^ 23) * 2 ^ e / 2 ^ 127))"

section \<open>Numbers, vectors and images\<close>

text \<open>
  JavaScript numbers and GLSL floats are modelled as real numbers: no rounding, no
  infinities, no NaN. A texture is modelled by the function that \<^verbatim>\<open>texture2D\<close> samples:
  normalised coordinates to an RGBA value. The filter mode and the half-float storage
  precision are not part of the model. The screen is an image over pixel coordinates.
\<close>

type_synonym vec2 = "real \<times> real"
type_synonym vec3 = "real \<times> real \<times> real"
type_synonym vec4 = "real \<times> real \<times> real \<times> real"
type_synonym image = "vec2 \<Rightarrow> vec4"

text \<open>
  What a call can throw: the two strings thrown by \<^verbatim>\<open>render\<close> and \<^verbatim>\<open>useProgram\<close>, and the
  \<^verbatim>\<open>TypeError\<close> of the language. \<open>Unmodelled\<close> is no exception: it marks a run that goes on
  with a value the model of numbers does not have (an operand that is \<^verbatim>\<open>undefined\<close>, a
  NaN or an infinity read back from a texture). A quotient with a zero divisor is not
  marked; statements about a quotient assume the divisor is not zero.
\<close>

datatype error =
    CantFindRenderSource string
  | NoSuchUniform string
  | InvalidNumberOfArguments string nat nat
  | TypeError
  | Unmodelled

definition bindE :: "error + 'a \<Rightarrow> ('a \<Rightarrow> error + 'b) \<Rightarrow> error + 'b" where
  "bindE m f = (case m of Inl e \<Rightarrow> Inl e | Inr x \<Rightarrow> f x)"

section \<open>The WebGL context\<close>

datatype program =
  Advection | Curl | Divergence | Ellipsis | GradientSubtract | Pressure | Transform | Splat | Vorticity

datatype format = R16F | RG16F | RGBA16F

datatype gltype =
    GL_FLOAT | GL_FLOAT_VEC2 | GL_FLOAT_VEC3 | GL_FLOAT_VEC4
  | GL_INT | GL_INT_VEC2 | GL_INT_VEC3 | GL_INT_VEC4
  | GL_SAMPLER_2D | GL_FLOAT_MAT2 | GL_FLOAT_MAT3 | GL_FLOAT_MAT4

text \<open>
  A value passed for a uniform: a number, an \<^verbatim>\<open>Array\<close> of numbers, or a \<^verbatim>\<open>Float32Array\<close>.
\<close>

datatype uval = Num real | Arr "real list" | F32 "real list"

text \<open>What a texture of a given internal format returns for a colour written to it.\<close>

fun storeAs :: "format \<Rightarrow> vec4 \<Rightarrow> vec4" where
  "storeAs R16F (r, g, b, a) = (r, 0, 0, 1)"
| "storeAs RG16F (r, g, b, a) = (r, g, 0, 1)"
| "storeAs RGBA16F (r, g, b, a) = (r, g, b, a)"

record texobj =
  texFormat :: format
  texImage :: image

text \<open>
  The state of the context that the calls of this repository read or write. A texture and
  the framebuffer object it is attached to share one handle. \<open>uniformValues\<close> holds, per
  program, the values last set for its uniforms (flattened to a list of numbers).
\<close>

record glctx =
  textures :: "nat \<rightharpoonup> texobj"
  nextHandle :: nat
  activeTexture :: nat
  textureUnits :: "nat \<rightharpoonup> nat"
  framebuffer :: "nat option"
  viewport :: "real \<times> real \<times> real \<times> real"
  currentProgram :: "program option"
  uniformValues :: "program \<Rightarrow> string \<rightharpoonup> real list"
  screen :: image

text \<open>
  The part of the graphics stack that is not in the sources at hand: the fragment shaders
  \<^verbatim>\<open>curl.js\<close>, \<^verbatim>\<open>divergence.js\<close>, \<^verbatim>\<open>gradient-subtract.js\<close>, \<^verbatim>\<open>pressure.js\<close> and
  \<^verbatim>\<open>vorticity.js\<close> (their active uniforms and what they compute) and the pixel read-back
  of \<^verbatim>\<open>gl.readPixels\<close> (which texels of a texture object a rectangle covers and their
  half-float encoding). They are parameters of the model.
\<close>

record gpu =
  extUniforms :: "program \<Rightarrow> string \<rightharpoonup> gltype"
  extFragment :: "program \<Rightarrow> (string \<rightharpoonup> real list) \<Rightarrow> (nat \<Rightarrow> image) \<Rightarrow> vec2 \<Rightarrow> vec4"
  readPixels :: "texobj option \<Rightarrow> int \<Rightarrow> int \<Rightarrow> int \<Rightarrow> int \<Rightarrow> 16 word list"

subsection \<open>Uniforms and programs (webgl-utils.js)\<close>

text \<open>\<^verbatim>\<open>uniformTypeMeta\<close>: the setter method and the expected number of arguments.\<close>

fun uniformTypeMeta :: "gltype \<Rightarrow> string \<times> nat" where
  "uniformTypeMeta GL_FLOAT = (''uniform1f'', 1)"
| "uniformTypeMeta GL_FLOAT_VEC2 = (''uniform2f'', 2)"
| "uniformTypeMeta GL_FLOAT_VEC3 = (''uniform3f'', 3)"
| "uniformTypeMeta GL_FLOAT_VEC4 = (''uniform4f'', 4)"
| "uniformTypeMeta GL_INT = (''uniform1i'', 1)"
| "uniformTypeMeta GL_INT_VEC2 = (''uniform2i'', 2)"
| "uniformTypeMeta GL_INT_VEC3 = (''uniform3i'', 3)"
| "uniformTypeMeta GL_INT_VEC4 = (''uniform4i'', 4)"
| "uniformTypeMeta GL_SAMPLER_2D = (''uniform1i'', 1)"
| "uniformTypeMeta GL_FLOAT_MAT2 = (''uniformMatrix2fv'', 1)"
| "uniformTypeMeta GL_FLOAT_MAT3 = (''uniformMatrix3fv'', 1)"
| "uniformTypeMeta GL_FLOAT_MAT4 = (''uniformMatrix4fv'', 1)"

text \<open>
  The active uniforms of a linked program, as \<^verbatim>\<open>gl.getActiveUniform\<close> reports them. For
  the four fragment shaders at hand they are the uniforms the shader declares (each is
  used in \<^verbatim>\<open>main\<close>); the vertex shader is taken to have none.
\<close>

definition activeUniforms :: "gpu \<Rightarrow> program \<Rightarrow> string \<rightharpoonup> gltype" where
  "activeUniforms G prog =
    (case prog of
       Splat \<Rightarrow> [''uSource'' \<mapsto> GL_SAMPLER_2D, ''point'' \<mapsto> GL_FLOAT_VEC2,
                 ''transform'' \<mapsto> GL_FLOAT_MAT2, ''color'' \<mapsto> GL_FLOAT_VEC3]
     | Ellipsis \<Rightarrow> [''point'' \<mapsto> GL_FLOAT_VEC2, ''transform'' \<mapsto> GL_FLOAT_MAT2,
                    ''color'' \<mapsto> GL_FLOAT_VEC3, ''uSource'' \<mapsto> GL_SAMPLER_2D]
     | Advection \<Rightarrow> [''uVelocity'' \<mapsto> GL_SAMPLER_2D, ''uSource'' \<mapsto> GL_SAMPLER_2D,
                     ''texelSize'' \<mapsto> GL_FLOAT_VEC2, ''dt'' \<mapsto> GL_FLOAT, ''scale'' \<mapsto> GL_FLOAT]
     | Transform \<Rightarrow> [''uTexture'' \<mapsto> GL_SAMPLER_2D, ''value'' \<mapsto> GL_FLOAT_MAT4]
     | _ \<Rightarrow> extUniforms G prog)"

text \<open>\<^verbatim>\<open>getUniforms\<close>: name to method and number of arguments (the location is the name).\<close>

definition getUniforms :: "gpu \<Rightarrow> program \<Rightarrow> string \<rightharpoonup> string \<times> nat" where
  "getUniforms G prog name = map_option uniformTypeMeta (activeUniforms G prog name)"

text \<open>\<^verbatim>\<open>method.indexOf("Matrix") >= 0\<close>\<close>

definition containsMatrix :: "string \<Rightarrow> bool" where
  "containsMatrix method =
    list_ex (\<lambda>i. take 6 (drop i method) = ''Matrix'') [0..<Suc (length method)]"

text \<open>The number of matrix entries a \<^verbatim>\<open>uniformMatrixNfv\<close> call expects.\<close>

definition matrixEntries :: "string \<Rightarrow> nat" where
  "matrixEntries method =
    (if method = ''uniformMatrix2fv'' then 4
     else if method = ''uniformMatrix3fv'' then 9 else 16)"

text \<open>
  A \<^verbatim>\<open>gl.uniform...\<close> call on the location of uniform \<open>name\<close> of program \<open>prog\<close>. The
  context rejects the call (and changes nothing) when \<open>prog\<close> is not the program in use.
\<close>

definition glUniform :: "program \<Rightarrow> string \<Rightarrow> real list \<Rightarrow> glctx \<Rightarrow> glctx" where
  "glUniform prog name vals g =
    (if currentProgram g = Some prog
     then g\<lparr>uniformValues := (uniformValues g)(prog := (uniformValues g prog)(name \<mapsto> vals))\<rparr>
     else g)"

text \<open>
  One step of the loop of \<^verbatim>\<open>useProgram\<close>. The setter is called with the spread value. A
  matrix setter takes one \<^verbatim>\<open>Float32Array\<close> (a number in its place is a \<^verbatim>\<open>TypeError\<close> of
  the binding; an array of the wrong length is rejected by the context, which changes
  nothing). A \<^verbatim>\<open>Float32Array\<close> handed to a scalar setter converts to a number that the
  model does not have; no call in this repository does that, and the model gives
  \<open>Unmodelled\<close>.
\<close>

definition setUniform :: "gpu \<Rightarrow> program \<Rightarrow> string \<times> uval \<Rightarrow> glctx \<Rightarrow> error + glctx" where
  "setUniform G prog nv g =
    (case getUniforms G prog (fst nv) of
       None \<Rightarrow> Inl (NoSuchUniform (fst nv))
     | Some (method, numArgs) \<Rightarrow>
         (let n = (case snd nv of Arr xs \<Rightarrow> length xs | _ \<Rightarrow> 1)
          in if n \<noteq> numArgs then Inl (InvalidNumberOfArguments (fst nv) numArgs n)
             else if containsMatrix method then
               (case snd nv of
                  F32 m \<Rightarrow> Inr (if length m = matrixEntries method
                                then glUniform prog (fst nv) m g else g)
                | _ \<Rightarrow> Inl TypeError)
             else
               (case snd nv of
                  Num x \<Rightarrow> Inr (glUniform prog (fst nv) [x] g)
                | Arr xs \<Rightarrow> Inr (glUniform prog (fst nv) xs g)
                | F32 m \<Rightarrow> Inl Unmodelled)))"

fun setUniforms :: "gpu \<Rightarrow> program \<Rightarrow> (string \<times> uval) list \<Rightarrow> glctx \<Rightarrow> error + glctx" where
  "setUniforms G prog [] g = Inr g"
| "setUniforms G prog (nv # rest) g = bindE (setUniform G prog nv g) (setUniforms G prog rest)"

text \<open>\<^verbatim>\<open>useProgram(gl, program, uniforms)\<close>, the \<^verbatim>\<open>use\<close> method of a compiled program.\<close>

definition useProgram :: "gpu \<Rightarrow> program \<Rightarrow> (string \<times> uval) list \<Rightarrow> glctx \<Rightarrow> error + glctx" where
  "useProgram G prog uniforms g = setUniforms G prog uniforms (g\<lparr>currentProgram := Some prog\<rparr>)"

subsection \<open>Framebuffer-attached textures (webgl-utils.js)\<close>

record fbo =
  fboTexture :: nat
  fboWidth :: real
  fboHeight :: real
  fboTexelSize :: vec2

text \<open>
  \<^verbatim>\<open>createTextureFBO\<close>. The new texture is bound to unit 0 and cleared to the clear
  colour, which is left at its initial value \<open>(0, 0, 0, 0)\<close>; the viewport is set and
  the default framebuffer is bound again. The internal format is the only one of the
  format, type and filter arguments that the model keeps.
\<close>

definition createTextureFBO :: "real \<Rightarrow> real \<Rightarrow> format \<Rightarrow> glctx \<Rightarrow> fbo \<times> glctx" where
  "createTextureFBO w h internalFormat g =
    (let texture = nextHandle g
     in (\<lparr>fboTexture = texture, fboWidth = w, fboHeight = h, fboTexelSize = (1 / w, 1 / h)\<rparr>,
         g\<lparr>textures := (textures g)(texture \<mapsto>
               \<lparr>texFormat = internalFormat, texImage = (\<lambda>uv. storeAs internalFormat (0, 0, 0, 0))\<rparr>),
           nextHandle := Suc texture,
           activeTexture := 0,
           textureUnits := (textureUnits g)(0 \<mapsto> texture),
           viewport := (0, 0, w, h),
           framebuffer := None\<rparr>))"

text \<open>The \<^verbatim>\<open>attach(id)\<close> and \<^verbatim>\<open>delete()\<close> methods of such an object.\<close>

definition attach :: "fbo \<Rightarrow> nat \<Rightarrow> glctx \<Rightarrow> glctx" where
  "attach f unit g = g\<lparr>activeTexture := unit, textureUnits := (textureUnits g)(unit \<mapsto> fboTexture f)\<rparr>"

definition deleteFBO :: "fbo \<Rightarrow> glctx \<Rightarrow> glctx" where
  "deleteFBO f g = g\<lparr>textures := (textures g)(fboTexture f := None)\<rparr>"

record doubleFbo =
  dW :: real
  dH :: real
  dTexelSize :: vec2
  fbo1 :: fbo
  fbo2 :: fbo

definition createDoubleTextureFBO :: "real \<Rightarrow> real \<Rightarrow> format \<Rightarrow> glctx \<Rightarrow> doubleFbo \<times> glctx" where
  "createDoubleTextureFBO w h internalFormat g =
    (let (f1, g1) = createTextureFBO w h internalFormat g;
         (f2, g2) = createTextureFBO w h internalFormat g1
     in (\<lparr>dW = w, dH = h, dTexelSize = fboTexelSize f1, fbo1 = f1, fbo2 = f2\<rparr>, g2))"

text \<open>The \<^verbatim>\<open>read\<close> and \<^verbatim>\<open>write\<close> getters, \<^verbatim>\<open>swap()\<close> and \<^verbatim>\<open>delete()\<close>.\<close>

definition readFbo :: "doubleFbo \<Rightarrow> fbo" where
  "readFbo d = fbo1 d"

definition writeFbo :: "doubleFbo \<Rightarrow> fbo" where
  "writeFbo d = fbo2 d"

definition swapFbo :: "doubleFbo \<Rightarrow> doubleFbo" where
  "swapFbo d = d\<lparr>fbo1 := fbo2 d, fbo2 := fbo1 d\<rparr>"

definition deleteDouble :: "doubleFbo \<Rightarrow> glctx \<Rightarrow> glctx" where
  "deleteDouble d g = deleteFBO (fbo2 d) (deleteFBO (fbo1 d) g)"

subsection \<open>Fragment shaders\<close>

text \<open>Reading a uniform in a shader; a uniform that was never set is zero.\<close>

definition ufloat :: "(string \<rightharpoonup> real list) \<Rightarrow> string \<Rightarrow> real" where
  "ufloat u name = (case u name of Some [x] \<Rightarrow> x | _ \<Rightarrow> 0)"

definition uvec2 :: "(string \<rightharpoonup> real list) \<Rightarrow> string \<Rightarrow> vec2" where
  "uvec2 u name = (case u name of Some [x, y] \<Rightarrow> (x, y) | _ \<Rightarrow> (0, 0))"

definition uvec3 :: "(string \<rightharpoonup> real list) \<Rightarrow> string \<Rightarrow> vec3" where
  "uvec3 u name = (case u name of Some [x, y, z] \<Rightarrow> (x, y, z) | _ \<Rightarrow> (0, 0, 0))"

definition umat :: "nat \<Rightarrow> (string \<rightharpoonup> real list) \<Rightarrow> string \<Rightarrow> real list" where
  "umat n u name = (case u name of Some m \<Rightarrow> (if length m = n then m else replicate n 0)
                                 | None \<Rightarrow> replicate n 0)"

definition usampler :: "(string \<rightharpoonup> real list) \<Rightarrow> string \<Rightarrow> nat" where
  "usampler u name = nat \<lfloor>ufloat u name\<rfloor>"

text \<open>\<^verbatim>\<open>texture2D\<close> on a texture with \<^verbatim>\<open>CLAMP_TO_EDGE\<close> wrapping.\<close>

definition clamp01 :: "real \<Rightarrow> real" where
  "clamp01 x = max 0 (min 1 x)"

definition texture2D :: "image \<Rightarrow> vec2 \<Rightarrow> vec4" where
  "texture2D img uv = img (clamp01 (fst uv), clamp01 (snd uv))"

text \<open>
  What a sampler bound to a texture unit returns. A unit with no texture, or with a
  deleted one, samples as opaque black.
\<close>

definition sampler :: "glctx \<Rightarrow> nat \<Rightarrow> image" where
  "sampler g unit =
    (case textureUnits g unit of
       None \<Rightarrow> (\<lambda>uv. (0, 0, 0, 1))
     | Some t \<Rightarrow> (case textures g t of
                    None \<Rightarrow> (\<lambda>uv. (0, 0, 0, 1))
                  | Some tx \<Rightarrow> texture2D (texImage tx)))"

text \<open>Column-major matrices times vectors, as GLSL multiplies them.\<close>

definition mat2mul :: "real list \<Rightarrow> vec2 \<Rightarrow> vec2" where
  "mat2mul m v = (m ! 0 * fst v + m ! 2 * snd v, m ! 1 * fst v + m ! 3 * snd v)"

fun mat4mul :: "real list \<Rightarrow> vec4 \<Rightarrow> vec4" where
  "mat4mul m (x, y, z, w) =
    (m ! 0 * x + m ! 4 * y + m ! 8 * z + m ! 12 * w,
     m ! 1 * x + m ! 5 * y + m ! 9 * z + m ! 13 * w,
     m ! 2 * x + m ! 6 * y + m ! 10 * z + m ! 14 * w,
     m ! 3 * x + m ! 7 * y + m ! 11 * z + m ! 15 * w)"

text \<open>\<^verbatim>\<open>shaders/splat.js\<close>: a gaussian splat of \<open>color\<close> at \<open>point\<close> over \<open>uSource\<close>.\<close>

definition splatShader :: "(string \<rightharpoonup> real list) \<Rightarrow> (nat \<Rightarrow> image) \<Rightarrow> vec2 \<Rightarrow> vec4" where
  "splatShader u samp vUv =
    (let point = uvec2 u ''point'';
         p = mat2mul (umat 4 u ''transform'') (fst vUv - fst point, snd vUv - snd point);
         e = exp (- (fst p * fst p + snd p * snd p));
         (cr, cg, cb) = uvec3 u ''color'';
         (br, bg, bb, ba) = samp (usampler u ''uSource'') vUv
     in (br * (1 - e) + e * cr, bg * (1 - e) + e * cg, bb * (1 - e) + e * cb, 1))"

text \<open>\<^verbatim>\<open>shaders/ellipsis.js\<close>: a filled hard-border ellipsis of \<open>color\<close> over \<open>uSource\<close>.\<close>

definition ellipsisShader :: "(string \<rightharpoonup> real list) \<Rightarrow> (nat \<Rightarrow> image) \<Rightarrow> vec2 \<Rightarrow> vec4" where
  "ellipsisShader u samp vUv =
    (let point = uvec2 u ''point'';
         p = mat2mul (umat 4 u ''transform'') (fst vUv - fst point, snd vUv - snd point);
         (cr, cg, cb) = uvec3 u ''color''
     in if sqrt (fst p * fst p + snd p * snd p) < 1 then (cr, cg, cb, 1)
        else samp (usampler u ''uSource'') vUv)"

text \<open>\<^verbatim>\<open>shaders/advection.js\<close>: \<open>uSource\<close> moved along \<open>uVelocity\<close> and scaled.\<close>

definition advectionShader :: "(string \<rightharpoonup> real list) \<Rightarrow> (nat \<Rightarrow> image) \<Rightarrow> vec2 \<Rightarrow> vec4" where
  "advectionShader u samp vUv =
    (let (vx, vy, vz, vw) = samp (usampler u ''uVelocity'') vUv;
         texelSize = uvec2 u ''texelSize'';
         coord = (fst vUv - ufloat u ''dt'' * vx * fst texelSize,
                  snd vUv - ufloat u ''dt'' * vy * snd texelSize);
         (r, g, b, a) = samp (usampler u ''uSource'') coord
     in (ufloat u ''scale'' * r, ufloat u ''scale'' * g, ufloat u ''scale'' * b, 1))"

text \<open>\<^verbatim>\<open>shaders/transform.js\<close>: the matrix \<open>value\<close> applied to \<open>uTexture\<close>.\<close>

definition transformShader :: "(string \<rightharpoonup> real list) \<Rightarrow> (nat \<Rightarrow> image) \<Rightarrow> vec2 \<Rightarrow> vec4" where
  "transformShader u samp vUv = mat4mul (umat 16 u ''value'') (samp (usampler u ''uTexture'') vUv)"

definition fragment :: "gpu \<Rightarrow> program \<Rightarrow> (string \<rightharpoonup> real list) \<Rightarrow> (nat \<Rightarrow> image) \<Rightarrow> vec2 \<Rightarrow> vec4" where
  "fragment G prog =
    (case prog of
       Splat \<Rightarrow> splatShader
     | Ellipsis \<Rightarrow> ellipsisShader
     | Advection \<Rightarrow> advectionShader
     | Transform \<Rightarrow> transformShader
     | _ \<Rightarrow> extFragment G prog)"

text \<open>
  Modelled from the spec: the vertex shader \<^verbatim>\<open>shaders/vertex.js\<close> is not among the
  sources. Internal field sampling coordinates are normalised to \<open>[0,1]\<close> per field, so
  the quad that \<^verbatim>\<open>_init_vao\<close> builds over \<open>[-1,1]\<close> covers the viewport and hands the
  fragment at relative position \<open>(u, v)\<close> of the viewport the coordinate \<open>vUv = (u, v)\<close>.

  \<^verbatim>\<open>gl.drawElements\<close> on that quad. Every draw into a texture happens through \<^verbatim>\<open>_blit\<close>,
  which sets the viewport to the whole texture, so the draw replaces the image of the
  bound texture. A draw to the default framebuffer replaces the pixels inside the
  viewport. Fixed-function state that no call of this repository enables (blending,
  scissor, culling, masks) is at its initial value and is not part of the model.
  Nothing is drawn when no program is in use or the bound framebuffer was deleted.
\<close>

definition drawElements :: "gpu \<Rightarrow> glctx \<Rightarrow> glctx" where
  "drawElements G g =
    (case currentProgram g of
       None \<Rightarrow> g
     | Some prog \<Rightarrow>
         (let frag = fragment G prog (uniformValues g prog) (sampler g)
          in case framebuffer g of
               Some t \<Rightarrow>
                 (case textures g t of
                    None \<Rightarrow> g
                  | Some tx \<Rightarrow>
                      g\<lparr>textures := (textures g)(t \<mapsto>
                           tx\<lparr>texImage := (\<lambda>uv. storeAs (texFormat tx) (frag uv))\<rparr>)\<rparr>)
             | None \<Rightarrow>
                 (let (vx, vy, vw, vh) = viewport g
                  in g\<lparr>screen := (\<lambda>xy.
                        if vx \<le> fst xy \<and> fst xy < vx + vw \<and> vy \<le> snd xy \<and> snd xy < vy + vh
                        then frag ((fst xy - vx) / vw, (snd xy - vy) / vh)
                        else screen g xy)\<rparr>)))"

section \<open>The simulation object\<close>

text \<open>A solid: \<open>position\<close>, \<open>velocity\<close>, \<open>radius\<close>, optional \<open>density\<close>, optional \<open>mass\<close>.\<close>

record solid =
  position :: vec2
  velocity :: vec2
  radius :: real
  density :: "real option"
  mass :: "real option"

text \<open>A render transform is a scalar or a \<^verbatim>\<open>Float32Array\<close> with a column-major matrix.\<close>

datatype tval = Scalar real | Matrix "real list"

text \<open>
  The fields of a \<^verbatim>\<open>FluidDynanmics\<close> instance. \<open>p_x\<close> stands for the private field
  \<^verbatim>\<open>this._x\<close>; a field that is still \<^verbatim>\<open>undefined\<close> is \<open>None\<close>. The compiled programs
  and the vertex array object never change and are not fields of the record; the hooks
  \<^verbatim>\<open>preRender\<close> and \<^verbatim>\<open>postRender\<close> are arguments of \<open>update\<close>. \<open>animationFrames\<close> counts
  the calls of \<^verbatim>\<open>requestAnimationFrame\<close>.
\<close>

record state =
  bottom :: real
  left :: real
  width :: real
  height :: real
  simScale :: real
  dyeScale :: real
  paused :: bool
  velocityDissipation :: real
  dyeDissipation :: real
  pressureDissipation :: real
  maxSimulationStep :: real
  pressureIterations :: int
  curl :: real
  renderSource :: string
  renderTransforms :: "string \<rightharpoonup> tval"
  autoUpdate :: bool
  updateTimeAlpha :: real
  solids :: "solid list"
  updateTime :: real
  gl :: glctx
  p_width :: "real option"
  p_height :: "real option"
  p_simScale :: "real option"
  p_dyeScale :: "real option"
  p_aspectRatio :: "real option"
  p_now :: "real option"
  p_dye :: "doubleFbo option"
  p_velocity :: "doubleFbo option"
  p_pressure :: "doubleFbo option"
  p_divergence :: "fbo option"
  p_curl :: "fbo option"
  animationFrames :: nat

subsection \<open>Matrices and colours\<close>

text \<open>\<^verbatim>\<open>identityMatrix4(s1, s2, s3, s4)\<close>; an argument left out is \<open>None\<close> and counts as 1.\<close>

definition identityMatrix4 ::
  "real option \<Rightarrow> real option \<Rightarrow> real option \<Rightarrow> real option \<Rightarrow> real list" where
  "identityMatrix4 s1 s2 s3 s4 =
    (let s1 = (case s1 of None \<Rightarrow> 1 | Some x \<Rightarrow> x);
         s2 = (case s2 of None \<Rightarrow> 1 | Some x \<Rightarrow> x);
         s3 = (case s3 of None \<Rightarrow> 1 | Some x \<Rightarrow> x);
         s4 = (case s4 of None \<Rightarrow> 1 | Some x \<Rightarrow> x)
     in [s1, 0, 0, 0,
         0, s2, 0, 0,
         0, 0, s3, 0,
         0, 0, 0, s4])"

definition identityTransform :: "real \<Rightarrow> real list" where
  "identityTransform s = identityMatrix4 (Some s) (Some s) (Some s) (Some 1)"

definition rToRG :: "real \<Rightarrow> real list" where
  "rToRG s =
    [s, - s, 0, 0,
     0, 0, 0, 0,
     0, 0, 0, 0,
     0, 0, 0, 1]"

definition splatTransform :: "real \<Rightarrow> real \<Rightarrow> real \<Rightarrow> real \<Rightarrow> real \<Rightarrow> real list" where
  "splatTransform angle majorSize minorSize w h =
    [w / majorSize * cos angle, w / minorSize * sin angle,
     - h / majorSize * sin angle, h / minorSize * cos angle]"

text \<open>
  \<^verbatim>\<open>HSVtoRGB\<close>. The remainder \<^verbatim>\<open>i % 6\<close> has the sign of \<open>i\<close>; when no case of the switch
  matches, the components stay \<^verbatim>\<open>undefined\<close> and the result is \<open>None\<close>.
\<close>

definition HSVtoRGB :: "real \<Rightarrow> real \<Rightarrow> real \<Rightarrow> real list option" where
  "HSVtoRGB h s v =
    (let i = \<lfloor>h * 6\<rfloor>;
         f = h * 6 - of_int i;
         p = v * (1 - s);
         q = v * (1 - f * s);
         t = v * (1 - (1 - f) * s);
         k = sgn i * (\<bar>i\<bar> mod 6)
     in if k = 0 then Some [v, t, p]
        else if k = 1 then Some [q, v, p]
        else if k = 2 then Some [p, v, t]
        else if k = 3 then Some [p, q, v]
        else if k = 4 then Some [t, p, v]
        else if k = 5 then Some [v, p, q]
        else None)"

subsection \<open>Buffers\<close>

text \<open>
  Lifting to the instance: \<open>attachS\<close> is \<^verbatim>\<open>buffer.attach(id)\<close> and \<open>use\<close> is
  \<^verbatim>\<open>this._programs.name.use({...})\<close>, both on \<^verbatim>\<open>this._gl\<close>.
\<close>

definition attachS :: "fbo \<Rightarrow> nat \<Rightarrow> state \<Rightarrow> state" where
  "attachS f unit s = s\<lparr>gl := attach f unit (gl s)\<rparr>"

definition use :: "gpu \<Rightarrow> program \<Rightarrow> (string \<times> uval) list \<Rightarrow> state \<Rightarrow> error + state" where
  "use G prog uniforms s = bindE (useProgram G prog uniforms (gl s)) (\<lambda>g. Inr (s\<lparr>gl := g\<rparr>))"

text \<open>
  \<^verbatim>\<open>_blit(target)\<close>: a target that is \<^verbatim>\<open>null\<close> or \<^verbatim>\<open>undefined\<close> is the screen, where
  the viewport is \<^verbatim>\<open>(left, bottom, _width, _height)\<close>; an \<^verbatim>\<open>undefined\<close> size reaches the
  context as 0.
\<close>

definition blit :: "gpu \<Rightarrow> fbo option \<Rightarrow> state \<Rightarrow> state" where
  "blit G target s =
    (case target of
       Some t \<Rightarrow>
         s\<lparr>gl := drawElements G ((gl s)\<lparr>framebuffer := Some (fboTexture t),
                                         viewport := (0, 0, fboWidth t, fboHeight t)\<rparr>)\<rparr>
     | None \<Rightarrow>
         s\<lparr>gl := drawElements G ((gl s)\<lparr>framebuffer := None,
               viewport := (left s, bottom s,
                            (case p_width s of None \<Rightarrow> 0 | Some w \<Rightarrow> w),
                            (case p_height s of None \<Rightarrow> 0 | Some h \<Rightarrow> h))\<rparr>)\<rparr>)"

text \<open>\<^verbatim>\<open>this[name]\<close> and \<^verbatim>\<open>this[name].swap()\<close> for the three state buffers.\<close>

definition stateBuffers :: "string list" where
  "stateBuffers = [''_dye'', ''_velocity'', ''_pressure'']"

definition getBuffer :: "string \<Rightarrow> state \<Rightarrow> doubleFbo option" where
  "getBuffer name s =
    (if name = ''_dye'' then p_dye s
     else if name = ''_velocity'' then p_velocity s
     else if name = ''_pressure'' then p_pressure s
     else None)"

definition swapBuffer :: "string \<Rightarrow> state \<Rightarrow> state" where
  "swapBuffer name s =
    (if name = ''_dye'' then s\<lparr>p_dye := map_option swapFbo (p_dye s)\<rparr>
     else if name = ''_velocity'' then s\<lparr>p_velocity := map_option swapFbo (p_velocity s)\<rparr>
     else if name = ''_pressure'' then s\<lparr>p_pressure := map_option swapFbo (p_pressure s)\<rparr>
     else s)"

text \<open>The body of the copy loop of \<^verbatim>\<open>_resizeBuffers\<close> for one entry of \<^verbatim>\<open>oldBuffers\<close>.\<close>

definition copyOldBuffer ::
  "gpu \<Rightarrow> real \<Rightarrow> real \<Rightarrow> string \<times> doubleFbo option \<Rightarrow> state \<Rightarrow> error + state" where
  "copyOldBuffer G simWidth simHeight entry s =
    (case snd entry of
       None \<Rightarrow> Inl TypeError
     | Some oldBuffer \<Rightarrow>
         (let transform =
                (if fst entry = ''_velocity''
                 then identityMatrix4 (Some (simWidth / dW oldBuffer))
                                      (Some (simHeight / dH oldBuffer)) None None
                 else identityMatrix4 None None None None)
          in bindE (use G Transform [(''value'', F32 transform), (''uTexture'', Num 0)]
                      (attachS (readFbo oldBuffer) 0 s))
               (\<lambda>s1. case getBuffer (fst entry) s1 of
                        None \<Rightarrow> Inl TypeError
                      | Some new \<Rightarrow>
                          (let s2 = swapBuffer (fst entry) (blit G (Some (writeFbo new)) s1)
                           in Inr (s2\<lparr>gl := deleteDouble oldBuffer (gl s2)\<rparr>)))))"

fun copyOldBuffers ::
  "gpu \<Rightarrow> real \<Rightarrow> real \<Rightarrow> (string \<times> doubleFbo option) list \<Rightarrow> state \<Rightarrow> error + state" where
  "copyOldBuffers G simWidth simHeight [] s = Inr s"
| "copyOldBuffers G simWidth simHeight (entry # rest) s =
    bindE (copyOldBuffer G simWidth simHeight entry s) (copyOldBuffers G simWidth simHeight rest)"

text \<open>\<^verbatim>\<open>_resizeBuffers(copyData)\<close>\<close>

definition resizeBuffers :: "gpu \<Rightarrow> bool \<Rightarrow> state \<Rightarrow> error + state" where
  "resizeBuffers G copyData s =
    (let simWidth = width s * simScale s;
         simHeight = height s * simScale s;
         dyeWidth = width s * dyeScale s;
         dyeHeight = height s * dyeScale s;
         oldBuffers = (if p_dye s \<noteq> None \<and> copyData
                       then map (\<lambda>name. (name, getBuffer name s)) stateBuffers else []);
         (dye, g1) = createDoubleTextureFBO dyeWidth dyeHeight RGBA16F (gl s);
         (velocity, g2) = createDoubleTextureFBO simWidth simHeight RG16F g1;
         (pressure, g3) = createDoubleTextureFBO simWidth simHeight R16F g2;
         (divergence, g4) = createTextureFBO simWidth simHeight R16F g3;
         (curl, g5) = createTextureFBO simWidth simHeight R16F g4
     in copyOldBuffers G simWidth simHeight oldBuffers
          (s\<lparr>gl := g5, p_dye := Some dye, p_velocity := Some velocity,
             p_pressure := Some pressure, p_divergence := Some divergence,
             p_curl := Some curl\<rparr>))"

text \<open>
  \<^verbatim>\<open>_resizeIfNeeded()\<close>. When \<^verbatim>\<open>_width\<close> is set and \<^verbatim>\<open>_height\<close> is not, the scale is
  not a number and the run leaves the model (\<open>Unmodelled\<close>); so does an aspect ratio
  with a zero height, which is stored as \<open>None\<close>.
\<close>

definition rescaleSolid :: "vec2 \<Rightarrow> solid \<Rightarrow> solid" where
  "rescaleSolid scale b =
    b\<lparr>position := (fst (position b) * fst scale, snd (position b) * snd scale),
      velocity := (fst (velocity b) * fst scale, snd (velocity b) * snd scale)\<rparr>"

definition sizeChanged :: "state \<Rightarrow> bool" where
  "sizeChanged s =
    (p_width s \<noteq> Some (width s) \<or> p_height s \<noteq> Some (height s) \<or>
     p_simScale s \<noteq> Some (simScale s) \<or> p_dyeScale s \<noteq> Some (dyeScale s))"

definition moveSolids :: "state \<Rightarrow> error + state" where
  "moveSolids s =
    (case p_width s of
       None \<Rightarrow> Inr s
     | Some w \<Rightarrow>
         if w = 0 then Inr s
         else (case p_height s of
                 None \<Rightarrow> Inl Unmodelled
               | Some h \<Rightarrow>
                   Inr (s\<lparr>solids := map (rescaleSolid (width s / w, height s / h)) (solids s)\<rparr>)))"

definition resizeIfNeeded :: "gpu \<Rightarrow> state \<Rightarrow> error + state" where
  "resizeIfNeeded G s =
    (if sizeChanged s then
       bindE (resizeBuffers G True s) (\<lambda>s1.
       bindE (moveSolids s1) (\<lambda>s2.
         Inr (s2\<lparr>p_width := Some (width s2),
                 p_height := Some (height s2),
                 p_aspectRatio := (if height s2 = 0 then None else Some (width s2 / height s2)),
                 p_simScale := Some (simScale s2),
                 p_dyeScale := Some (dyeScale s2)\<rparr>)))
     else Inr s)"

text \<open>\<^verbatim>\<open>reset()\<close>\<close>

definition reset :: "gpu \<Rightarrow> state \<Rightarrow> error + state" where
  "reset G s = resizeBuffers G False s"

subsection \<open>Splats\<close>

text \<open>
  \<^verbatim>\<open>setVelocity(x, y, angle, majorSize, minorSize, dx, dy)\<close>. The object literal is
  evaluated first, in the order it is written: the read buffer is attached, then the
  quotients and products are taken.
\<close>

definition setVelocity ::
  "gpu \<Rightarrow> real \<Rightarrow> real \<Rightarrow> real \<Rightarrow> real \<Rightarrow> real \<Rightarrow> real \<Rightarrow> real \<Rightarrow> state \<Rightarrow> error + state" where
  "setVelocity G x y angle majorSize minorSize dx dy s =
    (case p_velocity s of
       None \<Rightarrow> Inl TypeError
     | Some v \<Rightarrow>
         (case (p_width s, p_height s, p_simScale s) of
            (Some w, Some h, Some sc) \<Rightarrow>
              bindE (use G Splat
                       [(''uSource'', Num 0),
                        (''point'', Arr [x / w, y / h]),
                        (''color'', Arr [dx * sc, dy * sc, 0]),
                        (''transform'', F32 (splatTransform (- angle) majorSize minorSize w h))]
                       (attachS (readFbo v) 0 s))
                (\<lambda>s1. Inr (swapBuffer ''_velocity'' (blit G (Some (writeFbo v)) s1)))
          | _ \<Rightarrow> Inl Unmodelled))"

text \<open>
  \<^verbatim>\<open>setDye(x, y, angle, majorSize, minorSize, color)\<close>. \<open>color\<close> is an array, or \<open>None\<close>
  when the argument is left out; \<open>random\<close> is the value \<^verbatim>\<open>Math.random()\<close> returns then.
\<close>

definition setDye ::
  "gpu \<Rightarrow> real \<Rightarrow> real \<Rightarrow> real \<Rightarrow> real \<Rightarrow> real \<Rightarrow> real list option \<Rightarrow> real \<Rightarrow> state
    \<Rightarrow> error + state" where
  "setDye G x y angle majorSize minorSize color random s =
    (let color = (case color of None \<Rightarrow> HSVtoRGB random 1 1 | Some c \<Rightarrow> Some c)
     in case p_dye s of
          None \<Rightarrow> Inl TypeError
        | Some d \<Rightarrow>
            (case (p_width s, p_height s, color) of
               (Some w, Some h, Some color) \<Rightarrow>
                 bindE (use G Splat
                          [(''uSource'', Num 0),
                           (''point'', Arr [x / w, y / h]),
                           (''color'', Arr (map (\<lambda>v. v * 2.72) color)),
                           (''transform'', F32 (splatTransform (- angle) majorSize minorSize w h))]
                          (attachS (readFbo d) 0 s))
                   (\<lambda>s1. Inr (swapBuffer ''_dye'' (blit G (Some (writeFbo d)) s1)))
             | _ \<Rightarrow> Inl Unmodelled))"

subsection \<open>Solids\<close>

text \<open>
  The number read through the \<^verbatim>\<open>Float32Array\<close> view, when it is finite.
\<close>

definition float32Number :: "32 word \<Rightarrow> real option" where
  "float32Number w =
    (case float32Value w of
       Finite sign m \<Rightarrow> Some (if sign then - m else m)
     | _ \<Rightarrow> None)"

text \<open>
  \<^verbatim>\<open>pressure[i]\<close> on the \<^verbatim>\<open>Uint16Array\<close>: an index outside the array gives \<^verbatim>\<open>undefined\<close>,
  which the bitwise operators of \<^verbatim>\<open>uInt16ToFloat32\<close> take as 0.
\<close>

definition arrayGet :: "16 word list \<Rightarrow> int \<Rightarrow> 16 word" where
  "arrayGet xs i = (if 0 \<le> i \<and> i < int (length xs) then xs ! nat i else 0)"

text \<open>
  The loop \<^verbatim>\<open>for (let a = 0; a < Math.PI * 2; a += step)\<close> of \<^verbatim>\<open>_updateSolids\<close> with
  \<^verbatim>\<open>steps = 20\<close>, from angle \<open>a\<close> on; \<open>d\<close> is the pair \<^verbatim>\<open>(dx, dy)\<close>.
\<close>

definition angleStep :: real where
  "angleStep = pi * 2 / 20"

function pressureGradient :: "16 word list \<Rightarrow> int \<Rightarrow> real \<Rightarrow> vec2 \<Rightarrow> vec2 option" where
  "pressureGradient pressure sampleSize a d =
    (if a < pi * 2 then
       (let c = real_of_int sampleSize / 2;
            r = (real_of_int sampleSize - 1) / 2;
            px = \<lfloor>c + r * cos a\<rfloor>;
            py = \<lfloor>c + r * sin a\<rfloor>
        in case float32Number (uInt16ToFloat32 (arrayGet pressure (px + py * sampleSize))) of
             None \<Rightarrow> None
           | Some p \<Rightarrow>
               pressureGradient pressure sampleSize (a + angleStep)
                 (fst d + p * cos a, snd d + p * sin a))
     else Some d)"
  by pat_completeness auto
termination
proof (relation "measure (\<lambda>(pressure, sampleSize, a, d). nat \<lceil>(pi * 2 - a) / angleStep\<rceil>)")
  show "wf (measure (\<lambda>(pressure, sampleSize, a, d). nat \<lceil>(pi * 2 - a) / angleStep\<rceil>))"
    by simp
next
  fix pressure :: "16 word list" and sampleSize :: int and a :: real and d :: vec2
  assume lt: "a < pi * 2"
  have pos: "0 < angleStep"
    by (simp add: angleStep_def)
  have "(pi * 2 - (a + angleStep)) / angleStep = (pi * 2 - a) / angleStep - 1"
    using pos by (simp add: field_simps)
  then have eq: "\<lceil>(pi * 2 - (a + angleStep)) / angleStep\<rceil> = \<lceil>(pi * 2 - a) / angleStep\<rceil> - 1"
    by simp
  have "0 < (pi * 2 - a) / angleStep"
    using lt pos by simp
  then have "0 < \<lceil>(pi * 2 - a) / angleStep\<rceil>"
    by linarith
  with eq show "\<And>p. ((pressure, sampleSize, a + angleStep, fst d + p * cos a, snd d + p * sin a),
        pressure, sampleSize, a, d)
       \<in> measure (\<lambda>(pressure, sampleSize, a, d). nat \<lceil>(pi * 2 - a) / angleStep\<rceil>)"
    by simp
qed

declare pressureGradient.simps [simp del]

text \<open>\<^verbatim>\<open>a || b\<close> for a number that may be \<^verbatim>\<open>undefined\<close>: 0 and \<^verbatim>\<open>undefined\<close> are falsy.\<close>

definition orElse :: "real option \<Rightarrow> real \<Rightarrow> real" where
  "orElse a b = (case a of None \<Rightarrow> b | Some x \<Rightarrow> if x = 0 then b else x)"

text \<open>
  \<^verbatim>\<open>_drawSolid(solid, target, color)\<close>. The target is one of the double buffers of the
  instance, named here by its field; \<open>color\<close> is \<open>None\<close> when a component is not a number.
\<close>

definition drawSolid :: "gpu \<Rightarrow> solid \<Rightarrow> string \<Rightarrow> real list option \<Rightarrow> state \<Rightarrow> error + state" where
  "drawSolid G b target color s =
    (case getBuffer target s of
       None \<Rightarrow> Inl TypeError
     | Some t \<Rightarrow>
         (case (p_width s, p_height s, color) of
            (Some w, Some h, Some color) \<Rightarrow>
              bindE (use G Ellipsis
                       [(''point'', Arr [fst (position b) / w, snd (position b) / h]),
                        (''color'', Arr color),
                        (''uSource'', Num 0),
                        (''transform'', F32 (splatTransform 0 (radius b) (radius b) w h))]
                       (attachS (readFbo t) 0 s))
                (\<lambda>s1. Inr (swapBuffer target (blit G (Some (writeFbo t)) s1)))
          | _ \<Rightarrow> Inl Unmodelled))"

text \<open>
  The body of the loop of \<^verbatim>\<open>_updateSolids(dt)\<close> for one solid: the solid as the body
  leaves it, and the instance. \<open>sampleSize\<close>, \<open>sampleRadius\<close> (the local \<^verbatim>\<open>r\<close>),
  \<open>readPressure\<close> (the array \<^verbatim>\<open>pressure\<close> after the read-back), \<open>pForce\<close> and \<open>solidMass\<close>
  (the local \<^verbatim>\<open>mass\<close>) are the constants of the body.
\<close>

definition sampleSize :: "state \<Rightarrow> solid \<Rightarrow> int" where
  "sampleSize s b = \<lfloor>radius b * simScale s\<rfloor> * 2 + 2"

definition sampleRadius :: "state \<Rightarrow> solid \<Rightarrow> real" where
  "sampleRadius s b = (real_of_int (sampleSize s b) - 1) / 2"

definition solidMass :: "state \<Rightarrow> solid \<Rightarrow> real" where
  "solidMass s b =
    orElse (mass b) (orElse (density b) 1 * pi * sampleRadius s b * sampleRadius s b)"

definition readPressure :: "gpu \<Rightarrow> state \<Rightarrow> solid \<Rightarrow> doubleFbo \<Rightarrow> 16 word list" where
  "readPressure G s b pr =
    (let left = \<lfloor>(fst (position b) - radius b) * simScale s\<rfloor> - 1;
         bottom = \<lfloor>(snd (position b) - radius b) * simScale s\<rfloor> - 1;
         n = nat (sampleSize s b * sampleSize s b)
     in take n (readPixels G (textures (gl s) (fboTexture (readFbo pr)))
                  left bottom (sampleSize s b) (sampleSize s b) @ replicate n 0))"

definition pForce :: "gpu \<Rightarrow> state \<Rightarrow> solid \<Rightarrow> doubleFbo \<Rightarrow> vec2 option" where
  "pForce G s b pr =
    (case pressureGradient (readPressure G s b pr) (sampleSize s b) 0 (0, 0) of
       None \<Rightarrow> None
     | Some d \<Rightarrow> Some (- fst d * sampleRadius s b * angleStep,
                       - snd d * sampleRadius s b * angleStep))"

definition updateSolid :: "gpu \<Rightarrow> real \<Rightarrow> solid \<Rightarrow> state \<Rightarrow> error + solid \<times> state" where
  "updateSolid G dt b s =
    (case p_pressure s of
       None \<Rightarrow> Inl TypeError
     | Some pr \<Rightarrow>
         (let s1 = s\<lparr>gl := (gl s)\<lparr>framebuffer := Some (fboTexture (readFbo pr))\<rparr>\<rparr>
          in case pForce G s1 b pr of
               None \<Rightarrow> Inl Unmodelled
             | Some force \<Rightarrow>
                 (let vx = fst (velocity b) + fst force / solidMass s1 b;
                      x = fst (position b) + vx * dt;
                      vy = snd (velocity b) + snd force / solidMass s1 b;
                      y = snd (position b) + vy * dt;
                      b1 = b\<lparr>position := (x, y), velocity := (vx, vy)\<rparr>
                  in bindE (drawSolid G b1 ''_velocity''
                              (map_option (\<lambda>sc. [vx * sc, vy * sc, 0]) (p_simScale s1)) s1)
                       (\<lambda>s2. Inr (b1, s2)))))"

fun updateSolidList :: "gpu \<Rightarrow> real \<Rightarrow> solid list \<Rightarrow> state \<Rightarrow> error + solid list \<times> state" where
  "updateSolidList G dt [] s = Inr ([], s)"
| "updateSolidList G dt (b # bs) s =
    bindE (updateSolid G dt b s) (\<lambda>(b1, s1).
    bindE (updateSolidList G dt bs s1) (\<lambda>(bs1, s2). Inr (b1 # bs1, s2)))"

text \<open>\<^verbatim>\<open>_updateSolids(dt)\<close>: the solids of the list are updated in place, in order.\<close>

definition updateSolids :: "gpu \<Rightarrow> real \<Rightarrow> state \<Rightarrow> error + state" where
  "updateSolids G dt s =
    bindE (updateSolidList G dt (solids s) s) (\<lambda>(bs, s1). Inr (s1\<lparr>solids := bs\<rparr>))"

subsection \<open>The simulation step\<close>

text \<open>
  \<^verbatim>\<open>step(dt)\<close>, one definition per commented block of the method. The call
  \<^verbatim>\<open>gl.disable(gl.BLEND)\<close> that opens the method has no counterpart: blending is not
  part of the model of a draw.
\<close>

definition vec :: "vec2 \<Rightarrow> uval" where
  "vec v = Arr [fst v, snd v]"

definition curlPass :: "gpu \<Rightarrow> state \<Rightarrow> error + state" where
  "curlPass G s =
    (case p_velocity s of
       None \<Rightarrow> Inl TypeError
     | Some v \<Rightarrow>
         bindE (use G Curl [(''uVelocity'', Num 0), (''texelSize'', vec (dTexelSize v))]
                  (attachS (readFbo v) 0 s))
           (\<lambda>s1. Inr (blit G (p_curl s1) s1)))"

definition vorticityPass :: "gpu \<Rightarrow> real \<Rightarrow> state \<Rightarrow> error + state" where
  "vorticityPass G dt s =
    (case (p_velocity s, p_curl s) of
       (Some v, Some c) \<Rightarrow>
         bindE (use G Vorticity
                  [(''uVelocity'', Num 0), (''uCurl'', Num 1), (''texelSize'', vec (dTexelSize v)),
                   (''curl'', Num (curl s)), (''dt'', Num dt)]
                  (attachS c 1 (attachS (readFbo v) 0 s)))
           (\<lambda>s1. Inr (swapBuffer ''_velocity'' (blit G (Some (writeFbo v)) s1)))
     | _ \<Rightarrow> Inl TypeError)"

definition divergencePass :: "gpu \<Rightarrow> state \<Rightarrow> error + state" where
  "divergencePass G s =
    (case p_velocity s of
       None \<Rightarrow> Inl TypeError
     | Some v \<Rightarrow>
         bindE (use G Divergence [(''uVelocity'', Num 0), (''texelSize'', vec (dTexelSize v))]
                  (attachS (readFbo v) 0 s))
           (\<lambda>s1. Inr (blit G (p_divergence s1) s1)))"

definition dissipatePressure :: "gpu \<Rightarrow> real \<Rightarrow> state \<Rightarrow> error + state" where
  "dissipatePressure G dt s =
    (if pressureDissipation s \<noteq> 0 then
       (case p_pressure s of
          None \<Rightarrow> Inl TypeError
        | Some pr \<Rightarrow>
            bindE (use G Transform
                     [(''uTexture'', Num 0),
                      (''value'', F32 (identityMatrix4 (Some (1.0 - pressureDissipation s * dt))
                                         None None None))]
                     (attachS (readFbo pr) 0 s))
              (\<lambda>s1. Inr (swapBuffer ''_pressure'' (blit G (Some (writeFbo pr)) s1))))
     else Inr s)"

text \<open>
  The body of the pressure loop: \<^verbatim>\<open>gl.uniform1i\<close> on the location of \<^verbatim>\<open>uPressure\<close> with
  the unit the read buffer is attached to, the blit into the write buffer, the swap.
  Reading the location of a uniform that the program does not have is a \<^verbatim>\<open>TypeError\<close>.
\<close>

definition pressureIteration :: "gpu \<Rightarrow> state \<Rightarrow> error + state" where
  "pressureIteration G s =
    (case getUniforms G Pressure ''uPressure'' of
       None \<Rightarrow> Inl TypeError
     | Some meta \<Rightarrow>
         (case p_pressure s of
            None \<Rightarrow> Inl TypeError
          | Some pr \<Rightarrow>
              (let s1 = attachS (readFbo pr) 1 s;
                   s2 = s1\<lparr>gl := glUniform Pressure ''uPressure'' [1] (gl s1)\<rparr>
               in Inr (swapBuffer ''_pressure'' (blit G (Some (writeFbo pr)) s2)))))"

lemma bindE_cong [fundef_cong]:
  "m = m' \<Longrightarrow> (\<And>x. m' = Inr x \<Longrightarrow> f x = f' x) \<Longrightarrow> bindE m f = bindE m' f'"
  by (cases m') (simp_all add: bindE_def)

lemma pressureIterations_swapBuffer:
  "pressureIterations (swapBuffer name s) = pressureIterations s"
  by (simp add: swapBuffer_def)

lemma pressureIterations_blit: "pressureIterations (blit G target s) = pressureIterations s"
  by (cases target) (simp_all add: blit_def)

lemma pressureIterations_pressureIteration:
  "pressureIteration G s = Inr s' \<Longrightarrow> pressureIterations s' = pressureIterations s"
  by (auto simp: pressureIteration_def Let_def attachS_def pressureIterations_swapBuffer
        pressureIterations_blit split: option.splits)

text \<open>\<^verbatim>\<open>for (let i = 0; i < this.pressureIterations; i++)\<close>, from \<open>i\<close> on.\<close>

function pressureLoop :: "gpu \<Rightarrow> int \<Rightarrow> state \<Rightarrow> error + state" where
  "pressureLoop G i s =
    (if i < pressureIterations s
     then bindE (pressureIteration G s) (pressureLoop G (i + 1))
     else Inr s)"
  by pat_completeness auto
termination
  by (relation "measure (\<lambda>(G, i, s). nat (pressureIterations s - i))")
     (auto dest: pressureIterations_pressureIteration)

declare pressureLoop.simps [simp del]

definition pressurePass :: "gpu \<Rightarrow> state \<Rightarrow> error + state" where
  "pressurePass G s =
    (case (p_divergence s, p_velocity s) of
       (Some dv, Some v) \<Rightarrow>
         bindE (use G Pressure [(''uDivergence'', Num 0), (''texelSize'', vec (dTexelSize v))]
                  (attachS dv 0 s))
           (pressureLoop G 0)
     | _ \<Rightarrow> Inl TypeError)"

definition gradientSubtractPass :: "gpu \<Rightarrow> state \<Rightarrow> error + state" where
  "gradientSubtractPass G s =
    (case (p_pressure s, p_velocity s) of
       (Some pr, Some v) \<Rightarrow>
         bindE (use G GradientSubtract
                  [(''uPressure'', Num 0), (''uVelocity'', Num 1), (''texelSize'', vec (dTexelSize v))]
                  (attachS (readFbo v) 1 (attachS (readFbo pr) 0 s)))
           (\<lambda>s1. Inr (swapBuffer ''_velocity'' (blit G (Some (writeFbo v)) s1)))
     | _ \<Rightarrow> Inl TypeError)"

definition advectVelocity :: "gpu \<Rightarrow> real \<Rightarrow> state \<Rightarrow> error + state" where
  "advectVelocity G dt s =
    (case p_velocity s of
       None \<Rightarrow> Inl TypeError
     | Some v \<Rightarrow>
         bindE (use G Advection
                  [(''uVelocity'', Num 0), (''uSource'', Num 0), (''texelSize'', vec (dTexelSize v)),
                   (''dt'', Num dt), (''scale'', Num (1.0 - velocityDissipation s * dt))]
                  (attachS (readFbo v) 0 s))
           (\<lambda>s1. Inr (swapBuffer ''_velocity'' (blit G (Some (writeFbo v)) s1))))"

definition advectDye :: "gpu \<Rightarrow> real \<Rightarrow> state \<Rightarrow> error + state" where
  "advectDye G dt s =
    (case p_dye s of
       None \<Rightarrow> Inl TypeError
     | Some d \<Rightarrow>
         bindE (use G Advection
                  [(''uSource'', Num 1), (''scale'', Num (1.0 - dyeDissipation s * dt))]
                  (attachS (readFbo d) 1 s))
           (\<lambda>s1. Inr (swapBuffer ''_dye'' (blit G (Some (writeFbo d)) s1))))"

definition step :: "gpu \<Rightarrow> real \<Rightarrow> state \<Rightarrow> error + state" where
  "step G dt s =
    bindE (curlPass G s) (\<lambda>s.
    bindE (vorticityPass G dt s) (\<lambda>s.
    bindE (divergencePass G s) (\<lambda>s.
    bindE (dissipatePressure G dt s) (\<lambda>s.
    bindE (pressurePass G s) (\<lambda>s.
    bindE (gradientSubtractPass G s) (\<lambda>s.
    bindE (advectVelocity G dt s) (\<lambda>s.
    bindE (advectDye G dt s) (\<lambda>s.
    updateSolids G dt s))))))))"

subsection \<open>Rendering\<close>

text \<open>
  \<^verbatim>\<open>this["_" + this.renderSource]\<close>: what the lookup of a property whose name starts with
  an underscore finds on an instance. The five buffers, when they exist; the numbers
  \<^verbatim>\<open>_width\<close>, \<^verbatim>\<open>_height\<close>, \<^verbatim>\<open>_simScale\<close>, \<^verbatim>\<open>_dyeScale\<close>, \<^verbatim>\<open>_aspectRatio\<close> and \<^verbatim>\<open>_now\<close>, which
  are falsy when \<^verbatim>\<open>undefined\<close>, zero or not a number; and objects and functions that are
  no buffers: the context, the programs, the vertex array object, the table of default
  transforms, the private methods of the class and the underscore-named properties
  every object inherits. Anything else is \<^verbatim>\<open>undefined\<close>. \<open>None\<close> is a falsy value.
\<close>

datatype member = MDouble doubleFbo | MSingle fbo | MOther

definition otherMembers :: "string list" where
  "otherMembers =
    [''_gl'', ''_programs'', ''_vao'', ''_defaultRenderTransforms'',
     ''_resizeIfNeeded'', ''_resizeBuffers'', ''_init_vao'', ''_blit'', ''_update'',
     ''_drawSolid'', ''_updateSolids'',
     ''__proto__'', ''__defineGetter__'', ''__defineSetter__'', ''__lookupGetter__'',
     ''__lookupSetter__'']"

definition truthyNumber :: "real option \<Rightarrow> member option" where
  "truthyNumber x = (case x of None \<Rightarrow> None | Some v \<Rightarrow> if v = 0 then None else Some MOther)"

definition privateMember :: "state \<Rightarrow> string \<Rightarrow> member option" where
  "privateMember s name =
    (if name = ''_dye'' then map_option MDouble (p_dye s)
     else if name = ''_velocity'' then map_option MDouble (p_velocity s)
     else if name = ''_pressure'' then map_option MDouble (p_pressure s)
     else if name = ''_divergence'' then map_option MSingle (p_divergence s)
     else if name = ''_curl'' then map_option MSingle (p_curl s)
     else if name = ''_width'' then truthyNumber (p_width s)
     else if name = ''_height'' then truthyNumber (p_height s)
     else if name = ''_simScale'' then truthyNumber (p_simScale s)
     else if name = ''_dyeScale'' then truthyNumber (p_dyeScale s)
     else if name = ''_aspectRatio'' then truthyNumber (p_aspectRatio s)
     else if name = ''_now'' then truthyNumber (p_now s)
     else if name \<in> set otherMembers then Some MOther
     else None)"

text \<open>\<^verbatim>\<open>_defaultRenderTransforms\<close>\<close>

definition defaultRenderTransforms :: "string \<rightharpoonup> (real \<Rightarrow> real list)" where
  "defaultRenderTransforms =
    [''dye'' \<mapsto> identityTransform,
     ''velocity'' \<mapsto> identityTransform,
     ''pressure'' \<mapsto> rToRG,
     ''divergence'' \<mapsto> rToRG,
     ''curl'' \<mapsto> rToRG,
     ''solid'' \<mapsto> identityTransform]"

text \<open>
  \<^verbatim>\<open>render()\<close>. \<open>renderInputs\<close> is the first half of the method: the lookup of the source
  and of its transform. Calling a default transform that does not exist, and calling
  \<^verbatim>\<open>attach\<close> on a member that is no buffer, are \<^verbatim>\<open>TypeError\<close>s.
\<close>

definition renderInputs :: "state \<Rightarrow> error + real list \<times> fbo" where
  "renderInputs s =
    (case privateMember s (''_'' @ renderSource s) of
       None \<Rightarrow> Inl (CantFindRenderSource (renderSource s))
     | Some source \<Rightarrow>
         (let transform = (case renderTransforms s (renderSource s) of
                             None \<Rightarrow> Scalar 1
                           | Some (Scalar x) \<Rightarrow> if x = 0 then Scalar 1 else Scalar x
                           | Some (Matrix m) \<Rightarrow> Matrix m);
              transform = (case transform of
                             Matrix m \<Rightarrow> Some m
                           | Scalar x \<Rightarrow> map_option (\<lambda>f. f x)
                                           (defaultRenderTransforms (renderSource s)));
              source = (case source of
                          MDouble d \<Rightarrow> Some (readFbo d)
                        | MSingle f \<Rightarrow> Some f
                        | MOther \<Rightarrow> None)
          in case (transform, source) of
               (Some transform, Some source) \<Rightarrow> Inr (transform, source)
             | _ \<Rightarrow> Inl TypeError))"

definition render :: "gpu \<Rightarrow> state \<Rightarrow> error + state" where
  "render G s =
    bindE (renderInputs s) (\<lambda>(transform, source).
    bindE (use G Transform [(''uTexture'', Num 0), (''value'', F32 transform)]
             (attachS source 0 s))
      (\<lambda>s1. Inr (blit G None s1)))"

subsection \<open>The update loop\<close>

text \<open>
  \<^verbatim>\<open>_update()\<close>. \<open>now\<close> and \<open>now2\<close> are what the two calls of \<^verbatim>\<open>Date.now()\<close> return, in
  milliseconds; \<open>updateDt\<close> is the local \<^verbatim>\<open>dt\<close>. A hook is a function of \<open>dt\<close> on the
  instance, or \<open>None\<close>.
\<close>

definition updateDt :: "real \<Rightarrow> state \<Rightarrow> real" where
  "updateDt now s =
    min (case p_now s of
           None \<Rightarrow> 1
         | Some t \<Rightarrow> if t = 0 then 1 else (now - t) / 1000)
        (maxSimulationStep s)"

definition callHook :: "(real \<Rightarrow> state \<Rightarrow> error + state) option \<Rightarrow> real \<Rightarrow> state \<Rightarrow> error + state" where
  "callHook hook dt s = (case hook of None \<Rightarrow> Inr s | Some f \<Rightarrow> f dt s)"

definition renderAndSchedule ::
  "gpu \<Rightarrow> (real \<Rightarrow> state \<Rightarrow> error + state) option \<Rightarrow> (real \<Rightarrow> state \<Rightarrow> error + state) option
    \<Rightarrow> real \<Rightarrow> real \<Rightarrow> real \<Rightarrow> state \<Rightarrow> error + state" where
  "renderAndSchedule G preRender postRender now now2 dt s =
    bindE (callHook preRender dt s) (\<lambda>s.
    bindE (render G s) (\<lambda>s.
    bindE (callHook postRender dt s) (\<lambda>s.
      (let s = (if autoUpdate s then s\<lparr>animationFrames := Suc (animationFrames s)\<rparr> else s)
       in Inr (s\<lparr>updateTime := ((now2 - now) / 1000) * updateTimeAlpha s
                                 + updateTime s * (1 - updateTimeAlpha s)\<rparr>)))))"

definition update ::
  "gpu \<Rightarrow> (real \<Rightarrow> state \<Rightarrow> error + state) option \<Rightarrow> (real \<Rightarrow> state \<Rightarrow> error + state) option
    \<Rightarrow> real \<Rightarrow> real \<Rightarrow> state \<Rightarrow> error + state" where
  "update G preRender postRender now now2 s =
    (let dt = updateDt now s
     in bindE (resizeIfNeeded G (s\<lparr>p_now := Some now\<rparr>)) (\<lambda>s.
        bindE (if \<not> paused s then step G dt s else Inr s)
          (renderAndSchedule G preRender postRender now now2 dt)))"

subsection \<open>Construction\<close>

text \<open>
  \<^verbatim>\<open>config\<close> and the constructor, for an empty \<^verbatim>\<open>opts\<close>: the defaults, no buffers yet, an
  empty list of solids, and the first animation frame requested.
\<close>

definition newFluidDynamics :: "glctx \<Rightarrow> state" where
  "newFluidDynamics g =
    \<lparr>bottom = 0, left = 0, width = 100, height = 100, simScale = 1, dyeScale = 1,
     paused = False, velocityDissipation = 0.1, dyeDissipation = 0.1, pressureDissipation = 0,
     maxSimulationStep = 1 / 20, pressureIterations = 20, curl = 3,
     renderSource = ''dye'',
     renderTransforms = [''velocity'' \<mapsto> Scalar 0.01, ''pressure'' \<mapsto> Scalar 0.01,
                         ''divergence'' \<mapsto> Scalar 1, ''curl'' \<mapsto> Scalar 0.1,
                         ''solid'' \<mapsto> Scalar 0.1],
     autoUpdate = True, updateTimeAlpha = 1 / 120,
     solids = [], updateTime = 0, gl = g,
     p_width = None, p_height = None, p_simScale = None, p_dyeScale = None,
     p_aspectRatio = None, p_now = None,
     p_dye = None, p_velocity = None, p_pressure = None, p_divergence = None, p_curl = None,
     animationFrames = 1\<rparr>"

subsection \<open>Concrete inputs\<close>

text \<open>
  A context in its initial state, and an instance of the parameters in which the five
  absent shaders declare the uniforms that \<^verbatim>\<open>step\<close> passes to them, compute a constant and
  the read-back returns no data (the array keeps its zeros). They serve the concrete runs
  among the results.
\<close>

definition freshContext :: glctx where
  "freshContext =
    \<lparr>textures = Map.empty, nextHandle = 0, activeTexture = 0, textureUnits = Map.empty,
     framebuffer = None, viewport = (0, 0, 300, 150), currentProgram = None,
     uniformValues = (\<lambda>prog. Map.empty), screen = (\<lambda>xy. (0, 0, 0, 0))\<rparr>"

definition exampleGpu :: gpu where
  "exampleGpu =
    \<lparr>extUniforms = (\<lambda>prog. case prog of
         Curl \<Rightarrow> [''uVelocity'' \<mapsto> GL_SAMPLER_2D, ''texelSize'' \<mapsto> GL_FLOAT_VEC2]
       | Vorticity \<Rightarrow> [''uVelocity'' \<mapsto> GL_SAMPLER_2D, ''uCurl'' \<mapsto> GL_SAMPLER_2D,
                       ''texelSize'' \<mapsto> GL_FLOAT_VEC2, ''curl'' \<mapsto> GL_FLOAT, ''dt'' \<mapsto> GL_FLOAT]
       | Divergence \<Rightarrow> [''uVelocity'' \<mapsto> GL_SAMPLER_2D, ''texelSize'' \<mapsto> GL_FLOAT_VEC2]
       | Pressure \<Rightarrow> [''uDivergence'' \<mapsto> GL_SAMPLER_2D, ''uPressure'' \<mapsto> GL_SAMPLER_2D,
                      ''texelSize'' \<mapsto> GL_FLOAT_VEC2]
       | GradientSubtract \<Rightarrow> [''uPressure'' \<mapsto> GL_SAMPLER_2D, ''uVelocity'' \<mapsto> GL_SAMPLER_2D,
                              ''texelSize'' \<mapsto> GL_FLOAT_VEC2]
       | _ \<Rightarrow> Map.empty),
     extFragment = (\<lambda>prog u samp uv. (0, 0, 0, 1)),
     readPixels = (\<lambda>tex x y w h. [])\<rparr>"

definition exampleSolid :: solid where
  "exampleSolid = \<lparr>position = (50, 50), velocity = (0, 0), radius = 10,
                    density = Some 2, mass = None\<rparr>"

text \<open>
  The absent shaders declare the uniforms that \<^verbatim>\<open>step\<close> passes to them; the instance has
  its buffers and the sizes they were made for.
\<close>

definition declaresStepUniforms :: "gpu \<Rightarrow> bool" where
  "declaresStepUniforms G =
    (extUniforms G Curl = extUniforms exampleGpu Curl
     \<and> extUniforms G Vorticity = extUniforms exampleGpu Vorticity
     \<and> extUniforms G Divergence = extUniforms exampleGpu Divergence
     \<and> extUniforms G Pressure = extUniforms exampleGpu Pressure
     \<and> extUniforms G GradientSubtract = extUniforms exampleGpu GradientSubtract)"

definition readsNothing :: "gpu \<Rightarrow> bool" where
  "readsNothing G = (readPixels G = readPixels exampleGpu)"

definition buffersCreated :: "state \<Rightarrow> bool" where
  "buffersCreated s =
    (p_dye s \<noteq> None \<and> p_velocity s \<noteq> None \<and> p_pressure s \<noteq> None
     \<and> p_divergence s \<noteq> None \<and> p_curl s \<noteq> None)"

definition ready :: "state \<Rightarrow> bool" where
  "ready s =
    (p_dye s \<noteq> None \<and> p_velocity s \<noteq> None \<and> p_pressure s \<noteq> None
     \<and> p_divergence s \<noteq> None \<and> p_curl s \<noteq> None
     \<and> p_width s \<noteq> None \<and> p_height s \<noteq> None \<and> p_simScale s \<noteq> None)"

text \<open>The instance after construction, with one solid, and a first \<^verbatim>\<open>_resizeIfNeeded\<close>.\<close>

definition exampleState :: state where
  "exampleState =
    (case resizeIfNeeded exampleGpu ((newFluidDynamics freshContext)\<lparr>solids := [exampleSolid]\<rparr>) of
       Inr s \<Rightarrow> s
     | Inl e \<Rightarrow> newFluidDynamics freshContext)"

text \<open>
  The three stages of the context in \<open>render\<close>: the uniforms of the transform program
  after \<^verbatim>\<open>use\<close>, the context when the draw call is issued, and the screen after it.
\<close>

definition renderUniforms :: "real list \<Rightarrow> (program \<Rightarrow> string \<rightharpoonup> real list) \<Rightarrow> (program \<Rightarrow> string \<rightharpoonup> real list)" where
  "renderUniforms m uv =
    (if length m = 16
     then uv(Transform := (uv Transform)(''uTexture'' \<mapsto> [0], ''value'' \<mapsto> m))
     else uv(Transform := (uv Transform)(''uTexture'' \<mapsto> [0])))"

definition beforeDraw :: "real list \<Rightarrow> fbo \<Rightarrow> real \<times> real \<times> real \<times> real \<Rightarrow> glctx \<Rightarrow> glctx" where
  "beforeDraw m f vp g =
    g\<lparr>activeTexture := 0, textureUnits := (textureUnits g)(0 \<mapsto> fboTexture f),
      currentProgram := Some Transform, uniformValues := renderUniforms m (uniformValues g),
      framebuffer := None, viewport := vp\<rparr>"

definition drawnScreen :: "gpu \<Rightarrow> glctx \<Rightarrow> image" where
  "drawnScreen G g =
    (let (vx, vy, vw, vh) = viewport g
     in (\<lambda>xy. if vx \<le> fst xy \<and> fst xy < vx + vw \<and> vy \<le> snd xy \<and> snd xy < vy + vh
              then fragment G Transform (uniformValues g Transform) (sampler g)
                     ((fst xy - vx) / vw, (snd xy - vy) / vh)
              else screen g xy))"

text \<open>
  The sizes that the buffer objects of an instance record: \<open>sw\<close> by \<open>sh\<close> for the
  velocity, pressure, divergence and curl, \<open>dw\<close> by \<open>dh\<close> for the dye.
\<close>

definition doubleHasSize :: "real \<Rightarrow> real \<Rightarrow> doubleFbo option \<Rightarrow> bool" where
  "doubleHasSize w h d =
    (case d of
       None \<Rightarrow> False
     | Some d \<Rightarrow> dW d = w \<and> dH d = h \<and> dTexelSize d = (1 / w, 1 / h)
                 \<and> fboWidth (fbo1 d) = w \<and> fboHeight (fbo1 d) = h
                 \<and> fboWidth (fbo2 d) = w \<and> fboHeight (fbo2 d) = h)"

definition singleHasSize :: "real \<Rightarrow> real \<Rightarrow> fbo option \<Rightarrow> bool" where
  "singleHasSize w h f =
    (case f of None \<Rightarrow> False | Some f \<Rightarrow> fboWidth f = w \<and> fboHeight f = h)"

definition hasResolution :: "real \<Rightarrow> real \<Rightarrow> real \<Rightarrow> real \<Rightarrow> state \<Rightarrow> bool" where
  "hasResolution sw sh dw dh s =
    (doubleHasSize dw dh (p_dye s) \<and> doubleHasSize sw sh (p_velocity s)
     \<and> doubleHasSize sw sh (p_pressure s) \<and> singleHasSize sw sh (p_divergence s)
     \<and> singleHasSize sw sh (p_curl s))"

text \<open>An instance just constructed with a width of 101 and a simulation scale of one half.\<close>

definition oddState :: state where
  "oddState = (newFluidDynamics freshContext)\<lparr>width := 101, simScale := 1 / 2\<rparr>"

definition oddResized :: state where
  "oddResized = (case resizeIfNeeded exampleGpu oddState of Inr s \<Rightarrow> s | Inl e \<Rightarrow> oddState)"

text \<open>\<open>iterE n f\<close> runs \<open>f\<close> \<open>n\<close> times, stopping at the first error.\<close>

fun iterE :: "nat \<Rightarrow> ('a \<Rightarrow> error + 'a) \<Rightarrow> 'a \<Rightarrow> error + 'a" where
  "iterE 0 f s = Inr s"
| "iterE (Suc n) f s = bindE (f s) (iterE n f)"

section \<open>What a pass leaves alone\<close>

text \<open>
  Two states are related by \<open>onlyBuffers\<close> when they agree on every field of the instance
  except the context and the contents and roles of the three double buffers, and the
  same buffers exist in both.
\<close>

definition onlyBuffers :: "state \<Rightarrow> state \<Rightarrow> bool" where
  "onlyBuffers s s' =
    (bottom s' = bottom s \<and> left s' = left s \<and> width s' = width s \<and> height s' = height s
     \<and> simScale s' = simScale s \<and> dyeScale s' = dyeScale s \<and> paused s' = paused s
     \<and> velocityDissipation s' = velocityDissipation s \<and> dyeDissipation s' = dyeDissipation s
     \<and> pressureDissipation s' = pressureDissipation s
     \<and> maxSimulationStep s' = maxSimulationStep s
     \<and> pressureIterations s' = pressureIterations s \<and> curl s' = curl s
     \<and> renderSource s' = renderSource s \<and> renderTransforms s' = renderTransforms s
     \<and> autoUpdate s' = autoUpdate s \<and> updateTimeAlpha s' = updateTimeAlpha s
     \<and> solids s' = solids s \<and> updateTime s' = updateTime s
     \<and> p_width s' = p_width s \<and> p_height s' = p_height s \<and> p_simScale s' = p_simScale s
     \<and> p_dyeScale s' = p_dyeScale s \<and> p_aspectRatio s' = p_aspectRatio s
     \<and> p_now s' = p_now s \<and> p_divergence s' = p_divergence s \<and> p_curl s' = p_curl s
     \<and> animationFrames s' = animationFrames s
     \<and> (p_dye s' = None) = (p_dye s = None)
     \<and> (p_velocity s' = None) = (p_velocity s = None)
     \<and> (p_pressure s' = None) = (p_pressure s = None))"

lemma bindE_Inr_iff: "bindE m f = Inr y \<longleftrightarrow> (\<exists>x. m = Inr x \<and> f x = Inr y)"
  by (cases m) (simp_all add: bindE_def)

lemma bindE_Inr [simp]: "bindE (Inr x) f = f x"
  by (simp add: bindE_def)

lemma bindE_Inl [simp]: "bindE (Inl e) f = Inl e"
  by (simp add: bindE_def)

lemma onlyBuffers_refl [simp]: "onlyBuffers s s"
  by (simp add: onlyBuffers_def)

lemma onlyBuffers_trans: "onlyBuffers s s1 \<Longrightarrow> onlyBuffers s1 s2 \<Longrightarrow> onlyBuffers s s2"
  by (simp add: onlyBuffers_def)

lemma onlyBuffers_gl [simp]: "onlyBuffers s (s\<lparr>gl := g\<rparr>)"
  by (simp add: onlyBuffers_def)

lemma onlyBuffers_attachS [simp]: "onlyBuffers s (attachS f u s)"
  by (simp add: attachS_def)

lemma onlyBuffers_blit [simp]: "onlyBuffers s (blit G t s)"
  by (cases t) (simp_all add: blit_def)

lemma onlyBuffers_swapBuffer [simp]: "onlyBuffers s (swapBuffer name s)"
  by (simp add: swapBuffer_def onlyBuffers_def)

lemma use_Inr: "use G prog us s = Inr s' \<Longrightarrow> \<exists>g. s' = s\<lparr>gl := g\<rparr>"
  by (auto simp: use_def bindE_Inr_iff)

lemma onlyBuffers_use: "use G prog us s = Inr s' \<Longrightarrow> onlyBuffers s s'"
  by (auto dest: use_Inr)

lemma pass_frame:
  assumes "bindE (use G prog us s0) (\<lambda>s1. Inr (f s1)) = Inr s'"
    and "onlyBuffers s s0" and "\<And>x. onlyBuffers x (f x)"
  shows "onlyBuffers s s'"
proof -
  from assms(1) obtain s1 where u: "use G prog us s0 = Inr s1" and f: "s' = f s1"
    by (auto simp: bindE_Inr_iff)
  have "onlyBuffers s0 s1"
    using u by (rule onlyBuffers_use)
  with assms(2) have "onlyBuffers s s1"
    by (rule onlyBuffers_trans)
  moreover have "onlyBuffers s1 s'"
    unfolding f by (rule assms(3))
  ultimately show ?thesis
    by (rule onlyBuffers_trans)
qed

lemma onlyBuffers_swap_blit [simp]: "onlyBuffers x (swapBuffer name (blit G t x))"
  by (rule onlyBuffers_trans [OF onlyBuffers_blit onlyBuffers_swapBuffer])

lemma onlyBuffers_attach2 [simp]: "onlyBuffers s (attachS f u (attachS f' u' s))"
  by (rule onlyBuffers_trans [OF onlyBuffers_attachS onlyBuffers_attachS])

lemma onlyBuffers_blit_field [simp]: "onlyBuffers x (blit G (fld x) x)"
  by simp

lemma onlyBuffers_curlPass: "curlPass G s = Inr s' \<Longrightarrow> onlyBuffers s s'"
  unfolding curlPass_def
  by (cases "p_velocity s") (auto elim!: pass_frame)

lemma onlyBuffers_vorticityPass: "vorticityPass G dt s = Inr s' \<Longrightarrow> onlyBuffers s s'"
  unfolding vorticityPass_def
  by (cases "p_velocity s"; cases "p_curl s") (auto elim!: pass_frame)

lemma onlyBuffers_divergencePass: "divergencePass G s = Inr s' \<Longrightarrow> onlyBuffers s s'"
  unfolding divergencePass_def
  by (cases "p_velocity s") (auto elim!: pass_frame)

lemma onlyBuffers_dissipatePressure: "dissipatePressure G dt s = Inr s' \<Longrightarrow> onlyBuffers s s'"
  unfolding dissipatePressure_def
  by (cases "p_pressure s"; cases "pressureDissipation s = 0") (auto elim!: pass_frame)

lemma onlyBuffers_pressureIteration: "pressureIteration G s = Inr s' \<Longrightarrow> onlyBuffers s s'"
proof -
  assume a: "pressureIteration G s = Inr s'"
  then obtain pr where "s' = swapBuffer ''_pressure'' (blit G (Some (writeFbo pr))
      ((attachS (readFbo pr) 1 s)\<lparr>gl := glUniform Pressure ''uPressure'' [1] (gl (attachS (readFbo pr) 1 s))\<rparr>))"
    by (auto simp: pressureIteration_def Let_def split: option.splits)
  then show ?thesis
    using onlyBuffers_trans [OF onlyBuffers_attachS onlyBuffers_trans [OF onlyBuffers_gl onlyBuffers_swap_blit]]
    by simp
qed

lemma onlyBuffers_pressureLoop: "pressureLoop G i s = Inr s' \<Longrightarrow> onlyBuffers s s'"
proof (induction G i s rule: pressureLoop.induct)
  case (1 G i s)
  show ?case
  proof (cases "i < pressureIterations s")
    case True
    with "1.prems" obtain s1 where a: "pressureIteration G s = Inr s1"
      and b: "pressureLoop G (i + 1) s1 = Inr s'"
      by (auto simp: pressureLoop.simps [of G i s] bindE_Inr_iff)
    from "1.IH" [OF True a b] onlyBuffers_pressureIteration [OF a] show ?thesis
      by (blast intro: onlyBuffers_trans)
  next
    case False
    with "1.prems" show ?thesis by (simp add: pressureLoop.simps [of G i s])
  qed
qed

lemma onlyBuffers_pressurePass: "pressurePass G s = Inr s' \<Longrightarrow> onlyBuffers s s'"
proof -
  assume a: "pressurePass G s = Inr s'"
  then obtain dv v where dv: "p_divergence s = Some dv" and v: "p_velocity s = Some v"
    by (cases "p_divergence s"; cases "p_velocity s") (simp_all add: pressurePass_def)
  with a obtain s1 where
    u: "use G Pressure [(''uDivergence'', Num 0), (''texelSize'', vec (dTexelSize v))]
          (attachS dv 0 s) = Inr s1"
    and l: "pressureLoop G 0 s1 = Inr s'"
    by (auto simp: pressurePass_def bindE_Inr_iff)
  show ?thesis
    using onlyBuffers_trans [OF onlyBuffers_attachS
        onlyBuffers_trans [OF onlyBuffers_use [OF u] onlyBuffers_pressureLoop [OF l]]] .
qed

lemma onlyBuffers_gradientSubtractPass: "gradientSubtractPass G s = Inr s' \<Longrightarrow> onlyBuffers s s'"
  unfolding gradientSubtractPass_def
  by (cases "p_velocity s"; cases "p_pressure s") (auto elim!: pass_frame)

lemma onlyBuffers_advectVelocity: "advectVelocity G dt s = Inr s' \<Longrightarrow> onlyBuffers s s'"
  unfolding advectVelocity_def
  by (cases "p_velocity s") (auto elim!: pass_frame)

lemma onlyBuffers_advectDye: "advectDye G dt s = Inr s' \<Longrightarrow> onlyBuffers s s'"
  unfolding advectDye_def
  by (cases "p_dye s") (auto elim!: pass_frame)

lemma onlyBuffers_drawSolid: "drawSolid G b target color s = Inr s' \<Longrightarrow> onlyBuffers s s'"
  unfolding drawSolid_def
  by (cases "getBuffer target s"; cases "p_width s"; cases "p_height s"; cases color)
     (auto elim!: pass_frame)

lemma updateSolid_frame:
  assumes "updateSolid G dt b s = Inr (b', s')"
  shows "onlyBuffers s s'" "radius b' = radius b" "mass b' = mass b" "density b' = density b"
proof -
  from assms obtain pr force vx vy x y where
    d: "drawSolid G (b\<lparr>position := (x, y), velocity := (vx, vy)\<rparr>) ''_velocity''
          (map_option (\<lambda>sc. [vx * sc, vy * sc, 0]) (p_simScale s))
          (s\<lparr>gl := (gl s)\<lparr>framebuffer := Some (fboTexture (readFbo pr))\<rparr>\<rparr>) = Inr s'"
    and b': "b' = b\<lparr>position := (x, y), velocity := (vx, vy)\<rparr>"
    by (auto simp: updateSolid_def Let_def bindE_Inr_iff split: option.splits)
  show "onlyBuffers s s'"
    using onlyBuffers_trans [OF onlyBuffers_gl onlyBuffers_drawSolid [OF d]] .
  show "radius b' = radius b" "mass b' = mass b" "density b' = density b"
    by (simp_all add: b')
qed

lemma updateSolidList_frame:
  "updateSolidList G dt bs s = Inr (bs', s') \<Longrightarrow>
    onlyBuffers s s' \<and> map radius bs' = map radius bs \<and> map mass bs' = map mass bs
    \<and> map density bs' = map density bs"
proof (induction bs arbitrary: s bs' s')
  case Nil
  then show ?case by simp
next
  case (Cons b bs)
  from Cons.prems obtain b1 s1 bs1 where
    u: "updateSolid G dt b s = Inr (b1, s1)"
    and r: "updateSolidList G dt bs s1 = Inr (bs1, s')" and e: "bs' = b1 # bs1"
    by (auto simp: bindE_Inr_iff split: prod.splits)
  from Cons.IH [OF r] updateSolid_frame [OF u] show ?case
    by (auto simp: e intro: onlyBuffers_trans)
qed

lemma onlyBuffers_updateSolids:
  assumes "updateSolids G dt s = Inr s'"
  shows "onlyBuffers s (s'\<lparr>solids := solids s\<rparr>)" 
    "map radius (solids s') = map radius (solids s)"
    "map mass (solids s') = map mass (solids s)"
    "map density (solids s') = map density (solids s)"
proof -
  from assms obtain bs s1 where l: "updateSolidList G dt (solids s) s = Inr (bs, s1)"
    and e: "s' = s1\<lparr>solids := bs\<rparr>"
    by (auto simp: updateSolids_def bindE_Inr_iff split: prod.splits)
  from updateSolidList_frame [OF l]
  show "onlyBuffers s (s'\<lparr>solids := solids s\<rparr>)" 
    "map radius (solids s') = map radius (solids s)"
    "map mass (solids s') = map mass (solids s)"
    "map density (solids s') = map density (solids s)"
    by (simp_all add: e onlyBuffers_def)
qed

lemma step_Inr:
  assumes "step G dt s = Inr s'"
  obtains s8 where "onlyBuffers s s8" "updateSolids G dt s8 = Inr s'"
proof -
  from assms obtain s1 s2 s3 s4 s5 s6 s7 s8 where
    p1: "curlPass G s = Inr s1" and p2: "vorticityPass G dt s1 = Inr s2"
    and p3: "divergencePass G s2 = Inr s3" and p4: "dissipatePressure G dt s3 = Inr s4"
    and p5: "pressurePass G s4 = Inr s5" and p6: "gradientSubtractPass G s5 = Inr s6"
    and p7: "advectVelocity G dt s6 = Inr s7" and p8: "advectDye G dt s7 = Inr s8"
    and u: "updateSolids G dt s8 = Inr s'"
    unfolding step_def bindE_Inr_iff by blast
  have "onlyBuffers s s2"
    using onlyBuffers_curlPass [OF p1] onlyBuffers_vorticityPass [OF p2]
    by (rule onlyBuffers_trans)
  then have "onlyBuffers s s3"
    using onlyBuffers_divergencePass [OF p3] by (rule onlyBuffers_trans)
  then have "onlyBuffers s s4"
    using onlyBuffers_dissipatePressure [OF p4] by (rule onlyBuffers_trans)
  then have "onlyBuffers s s5"
    using onlyBuffers_pressurePass [OF p5] by (rule onlyBuffers_trans)
  then have "onlyBuffers s s6"
    using onlyBuffers_gradientSubtractPass [OF p6] by (rule onlyBuffers_trans)
  then have "onlyBuffers s s7"
    using onlyBuffers_advectVelocity [OF p7] by (rule onlyBuffers_trans)
  then have "onlyBuffers s s8"
    using onlyBuffers_advectDye [OF p8] by (rule onlyBuffers_trans)
  with u show ?thesis
    by (rule that [rotated])
qed

lemma solids_step:
  assumes "step G dt s = Inr s'"
  shows "map radius (solids s') = map radius (solids s)"
    "map mass (solids s') = map mass (solids s)"
    "map density (solids s') = map density (solids s)"
proof -
  from assms obtain s8 where f: "onlyBuffers s s8" and u: "updateSolids G dt s8 = Inr s'"
    by (rule step_Inr)
  from f have "solids s8 = solids s"
    by (simp add: onlyBuffers_def)
  with onlyBuffers_updateSolids(2-4) [OF u]
  show "map radius (solids s') = map radius (solids s)"
    "map mass (solids s') = map mass (solids s)"
    "map density (solids s') = map density (solids s)"
    by simp_all
qed

lemma onlyBuffers_copyOldBuffer:
  "copyOldBuffer G w h entry s = Inr s' \<Longrightarrow> onlyBuffers s s'"
proof -
  assume a: "copyOldBuffer G w h entry s = Inr s'"
  then obtain old where o: "snd entry = Some old"
    by (cases "snd entry") (simp_all add: copyOldBuffer_def)
  from a o obtain tr s1 new where
    u: "use G Transform [(''value'', F32 tr), (''uTexture'', Num 0)] (attachS (readFbo old) 0 s) = Inr s1"
    and e: "s' = (swapBuffer (fst entry) (blit G (Some (writeFbo new)) s1))
                 \<lparr>gl := deleteDouble old (gl (swapBuffer (fst entry) (blit G (Some (writeFbo new)) s1)))\<rparr>"
    by (auto simp: copyOldBuffer_def Let_def bindE_Inr_iff split: option.splits)
  show ?thesis
    unfolding e
    using onlyBuffers_trans [OF onlyBuffers_attachS onlyBuffers_trans [OF onlyBuffers_use [OF u]
          onlyBuffers_trans [OF onlyBuffers_swap_blit onlyBuffers_gl]]] .
qed

lemma onlyBuffers_copyOldBuffers:
  "copyOldBuffers G w h entries s = Inr s' \<Longrightarrow> onlyBuffers s s'"
proof (induction entries arbitrary: s)
  case Nil
  then show ?case by simp
next
  case (Cons entry rest)
  from Cons.prems obtain s1 where a: "copyOldBuffer G w h entry s = Inr s1"
    and b: "copyOldBuffers G w h rest s1 = Inr s'"
    by (auto simp: bindE_Inr_iff)
  show ?case
    using onlyBuffers_copyOldBuffer [OF a] Cons.IH [OF b] by (rule onlyBuffers_trans)
qed

lemma solids_resizeBuffers: "resizeBuffers G c s = Inr s' \<Longrightarrow> solids s' = solids s"
proof -
  assume "resizeBuffers G c s = Inr s'"
  then obtain s0 where "onlyBuffers s0 s'" and "solids s0 = solids s"
    by (auto simp: resizeBuffers_def Let_def split: prod.splits dest!: onlyBuffers_copyOldBuffers)
  then show ?thesis
    by (simp add: onlyBuffers_def)
qed

lemma rescaleSolid_fields [simp]:
  "radius (rescaleSolid sc b) = radius b" "mass (rescaleSolid sc b) = mass b"
  "density (rescaleSolid sc b) = density b"
  by (simp_all add: rescaleSolid_def)

lemma solids_moveSolids:
  assumes "moveSolids s = Inr s'"
  shows "map radius (solids s') = map radius (solids s)"
    "map mass (solids s') = map mass (solids s)"
    "map density (solids s') = map density (solids s)"
  using assms by (auto simp: moveSolids_def split: option.splits if_splits)

lemma resizeIfNeeded_Inr:
  assumes "resizeIfNeeded G s = Inr s'" and "sizeChanged s"
  obtains s1 s2 where "resizeBuffers G True s = Inr s1" "moveSolids s1 = Inr s2"
    "s' = s2\<lparr>p_width := Some (width s2), p_height := Some (height s2),
              p_aspectRatio := (if height s2 = 0 then None else Some (width s2 / height s2)),
              p_simScale := Some (simScale s2), p_dyeScale := Some (dyeScale s2)\<rparr>"
  using assms by (auto simp: resizeIfNeeded_def bindE_Inr_iff)

lemma solids_resizeIfNeeded:
  assumes "resizeIfNeeded G s = Inr s'"
  shows "map radius (solids s') = map radius (solids s)"
    "map mass (solids s') = map mass (solids s)"
    "map density (solids s') = map density (solids s)"
proof -
  have "map radius (solids s') = map radius (solids s)
    \<and> map mass (solids s') = map mass (solids s)
    \<and> map density (solids s') = map density (solids s)"
  proof (cases "sizeChanged s")
    case True
    with assms obtain s1 s2 where a: "resizeBuffers G True s = Inr s1" and b: "moveSolids s1 = Inr s2"
      and c: "solids s' = solids s2"
      by (rule resizeIfNeeded_Inr) simp
    show ?thesis
      using solids_resizeBuffers [OF a] solids_moveSolids [OF b] c by simp
  next
    case False
    with assms show ?thesis
      by (simp add: resizeIfNeeded_def)
  qed
  then show "map radius (solids s') = map radius (solids s)"
    "map mass (solids s') = map mass (solids s)"
    "map density (solids s') = map density (solids s)"
    by simp_all
qed

lemma containsMatrix_methods:
  "containsMatrix ''uniformMatrix2fv''" "containsMatrix ''uniformMatrix3fv''"
  "containsMatrix ''uniformMatrix4fv''"
  "\<not> containsMatrix ''uniform1f''" "\<not> containsMatrix ''uniform2f''"
  "\<not> containsMatrix ''uniform3f''" "\<not> containsMatrix ''uniform4f''"
  "\<not> containsMatrix ''uniform1i''" "\<not> containsMatrix ''uniform2i''"
  "\<not> containsMatrix ''uniform3i''" "\<not> containsMatrix ''uniform4i''"
  by (simp_all add: containsMatrix_def upt_rec)

lemmas use_eval = use_def useProgram_def setUniform_def getUniforms_def activeUniforms_def
  vec_def containsMatrix_methods matrixEntries_def

lemma use_Curl:
  "declaresStepUniforms G \<Longrightarrow>
    \<exists>s'. use G Curl [(''uVelocity'', Num x), (''texelSize'', vec t)] s = Inr s'"
  by (simp add: use_eval declaresStepUniforms_def exampleGpu_def)

lemma use_Vorticity:
  "declaresStepUniforms G \<Longrightarrow>
    \<exists>s'. use G Vorticity [(''uVelocity'', Num x), (''uCurl'', Num y), (''texelSize'', vec t),
                   (''curl'', Num c), (''dt'', Num dt)] s = Inr s'"
  by (simp add: use_eval declaresStepUniforms_def exampleGpu_def)

lemma use_Divergence:
  "declaresStepUniforms G \<Longrightarrow>
    \<exists>s'. use G Divergence [(''uVelocity'', Num x), (''texelSize'', vec t)] s = Inr s'"
  by (simp add: use_eval declaresStepUniforms_def exampleGpu_def)

lemma use_Pressure:
  "declaresStepUniforms G \<Longrightarrow>
    \<exists>s'. use G Pressure [(''uDivergence'', Num x), (''texelSize'', vec t)] s = Inr s'"
  by (simp add: use_eval declaresStepUniforms_def exampleGpu_def)

lemma use_GradientSubtract:
  "declaresStepUniforms G \<Longrightarrow>
    \<exists>s'. use G GradientSubtract [(''uPressure'', Num x), (''uVelocity'', Num y), (''texelSize'', vec t)] s
      = Inr s'"
  by (simp add: use_eval declaresStepUniforms_def exampleGpu_def)

lemma use_Advection_velocity:
  "\<exists>s'. use G Advection [(''uVelocity'', Num x), (''uSource'', Num y), (''texelSize'', vec t),
                   (''dt'', Num dt), (''scale'', Num sc)] s = Inr s'"
  by (simp add: use_eval)

lemma use_Advection_dye:
  "\<exists>s'. use G Advection [(''uSource'', Num y), (''scale'', Num sc)] s = Inr s'"
  by (simp add: use_eval)

lemma use_Transform:
  "use G Transform [(''uTexture'', Num x), (''value'', F32 m)] s =
    Inr (s\<lparr>gl := (if length m = 16 then glUniform Transform ''value'' m else id)
                  (glUniform Transform ''uTexture'' [x] ((gl s)\<lparr>currentProgram := Some Transform\<rparr>))\<rparr>)"
  by (simp add: use_eval)

lemma use_Transform':
  "use G Transform [(''value'', F32 m), (''uTexture'', Num x)] s =
    Inr (s\<lparr>gl := glUniform Transform ''uTexture'' [x]
                  ((if length m = 16 then glUniform Transform ''value'' m else id)
                   ((gl s)\<lparr>currentProgram := Some Transform\<rparr>))\<rparr>)"
  by (simp add: use_eval)

lemma use_Splat:
  "length c = 3 \<Longrightarrow> length m = 4 \<Longrightarrow>
   use G Splat [(''uSource'', Num x), (''point'', Arr [px, py]), (''color'', Arr c),
                (''transform'', F32 m)] s =
    Inr (s\<lparr>gl := glUniform Splat ''transform'' m (glUniform Splat ''color'' c
                  (glUniform Splat ''point'' [px, py] (glUniform Splat ''uSource'' [x]
                   ((gl s)\<lparr>currentProgram := Some Splat\<rparr>))))\<rparr>)"
  by (simp add: use_eval)

lemma use_Ellipsis:
  "length c = 3 \<Longrightarrow> length m = 4 \<Longrightarrow>
   \<exists>s'. use G Ellipsis [(''point'', Arr [px, py]), (''color'', Arr c), (''uSource'', Num x),
                (''transform'', F32 m)] s = Inr s'"
  by (simp add: use_eval)

lemma ready_onlyBuffers: "onlyBuffers s s' \<Longrightarrow> ready s \<Longrightarrow> ready s'"
  by (simp add: onlyBuffers_def ready_def)

lemma curlPass_ok: "declaresStepUniforms G \<Longrightarrow> ready s \<Longrightarrow> \<exists>s'. curlPass G s = Inr s'"
  using use_Curl [of G]
  by (cases "p_velocity s") (auto simp: curlPass_def ready_def bindE_Inr_iff)

lemma vorticityPass_ok: "declaresStepUniforms G \<Longrightarrow> ready s \<Longrightarrow> \<exists>s'. vorticityPass G dt s = Inr s'"
  using use_Vorticity [of G]
  by (cases "p_velocity s"; cases "p_curl s") (auto simp: vorticityPass_def ready_def bindE_Inr_iff)

lemma divergencePass_ok: "declaresStepUniforms G \<Longrightarrow> ready s \<Longrightarrow> \<exists>s'. divergencePass G s = Inr s'"
  using use_Divergence [of G]
  by (cases "p_velocity s") (auto simp: divergencePass_def ready_def bindE_Inr_iff)

lemma dissipatePressure_ok: "ready s \<Longrightarrow> \<exists>s'. dissipatePressure G dt s = Inr s'"
  by (cases "p_pressure s") (auto simp: dissipatePressure_def ready_def use_Transform)

lemma pressureIteration_ok:
  "declaresStepUniforms G \<Longrightarrow> ready s \<Longrightarrow> \<exists>s'. pressureIteration G s = Inr s'"
  by (cases "p_pressure s")
     (auto simp: pressureIteration_def ready_def Let_def declaresStepUniforms_def exampleGpu_def
        getUniforms_def activeUniforms_def)

lemma pressureLoop_ok:
  "declaresStepUniforms G \<Longrightarrow> ready s \<Longrightarrow> \<exists>s'. pressureLoop G i s = Inr s'"
proof (induction G i s rule: pressureLoop.induct)
  case (1 G i s)
  show ?case
  proof (cases "i < pressureIterations s")
    case True
    from pressureIteration_ok [OF "1.prems"] obtain s1 where a: "pressureIteration G s = Inr s1"
      by blast
    have "ready s1"
      using onlyBuffers_pressureIteration [OF a] "1.prems"(2) by (rule ready_onlyBuffers)
    from "1.IH" [OF True a "1.prems"(1) this] show ?thesis
      using True a by (simp add: pressureLoop.simps [of G i s])
  next
    case False
    then show ?thesis
      by (simp add: pressureLoop.simps [of G i s])
  qed
qed

lemma pressurePass_ok: "declaresStepUniforms G \<Longrightarrow> ready s \<Longrightarrow> \<exists>s'. pressurePass G s = Inr s'"
proof -
  assume G: "declaresStepUniforms G" and r: "ready s"
  then obtain dv v where dv: "p_divergence s = Some dv" and v: "p_velocity s = Some v"
    by (auto simp: ready_def)
  from use_Pressure [OF G] obtain s1 where
    u: "use G Pressure [(''uDivergence'', Num 0), (''texelSize'', vec (dTexelSize v))]
          (attachS dv 0 s) = Inr s1"
    by blast
  have "ready s1"
    using onlyBuffers_trans [OF onlyBuffers_attachS onlyBuffers_use [OF u]] r
    by (rule ready_onlyBuffers)
  from pressureLoop_ok [OF G this] show ?thesis
    by (simp add: pressurePass_def dv v u)
qed

lemma gradientSubtractPass_ok:
  "declaresStepUniforms G \<Longrightarrow> ready s \<Longrightarrow> \<exists>s'. gradientSubtractPass G s = Inr s'"
  using use_GradientSubtract [of G]
  by (cases "p_velocity s"; cases "p_pressure s")
     (auto simp: gradientSubtractPass_def ready_def bindE_Inr_iff)

lemma advectVelocity_ok: "ready s \<Longrightarrow> \<exists>s'. advectVelocity G dt s = Inr s'"
  using use_Advection_velocity [of G]
  by (cases "p_velocity s") (auto simp: advectVelocity_def ready_def bindE_Inr_iff)

lemma advectDye_ok: "ready s \<Longrightarrow> \<exists>s'. advectDye G dt s = Inr s'"
  using use_Advection_dye [of G]
  by (cases "p_dye s") (auto simp: advectDye_def ready_def bindE_Inr_iff)

lemma float32Number_zero: "float32Number (uInt16ToFloat32 0) = Some 0"
proof -
  have "uInt16ToFloat32 0 = 0"
    by code_simp
  moreover have "float32Value 0 = Finite False 0"
    by (simp add: float32Value_def)
  ultimately show ?thesis
    by (simp add: float32Number_def)
qed

lemma arrayGet_zeros: "arrayGet (replicate n 0) i = 0"
proof (cases "0 \<le> i \<and> i < int n")
  case True
  then have "nat i < n" by linarith
  then show ?thesis
    using True by (simp add: arrayGet_def)
next
  case False
  then show ?thesis
    by (auto simp: arrayGet_def)
qed

lemma pressureGradient_zeros_aux:
  "(\<And>i. arrayGet pr i = 0) \<Longrightarrow> pressureGradient pr ss a d = Some d"
proof (induction pr ss a d rule: pressureGradient.induct)
  case (1 pr ss a d)
  show ?case
  proof (cases "a < pi * 2")
    case True
    have "pressureGradient pr ss (a + angleStep) (fst d + 0 * cos a, snd d + 0 * sin a)
      = Some (fst d + 0 * cos a, snd d + 0 * sin a)"
      by (rule "1.IH" [OF True refl refl refl refl]) (simp_all add: "1.prems" float32Number_zero)
    then show ?thesis
      using True
      by (simp add: pressureGradient.simps [of pr ss a d] Let_def "1.prems" float32Number_zero)
  next
    case False
    then show ?thesis
      by (simp add: pressureGradient.simps [of pr ss a d])
  qed
qed

lemma pressureGradient_zeros: "pressureGradient (replicate n 0) ss a d = Some d"
  by (rule pressureGradient_zeros_aux) (rule arrayGet_zeros)

lemma pForce_zeros: "readsNothing G \<Longrightarrow> pForce G s b pr = Some (0, 0)"
  by (simp add: pForce_def readPressure_def readsNothing_def exampleGpu_def Let_def
      pressureGradient_zeros)

lemma drawSolid_ok:
  assumes "ready s" and "length c = 3"
  shows "\<exists>s'. drawSolid G b ''_velocity'' (Some c) s = Inr s'"
proof -
  from assms(1) obtain v w h where "p_velocity s = Some v" "p_width s = Some w" "p_height s = Some h"
    by (auto simp: ready_def)
  moreover have "length (splatTransform 0 (radius b) (radius b) w h) = 4"
    by (simp add: splatTransform_def)
  ultimately show ?thesis
    using use_Ellipsis [OF assms(2), of "splatTransform 0 (radius b) (radius b) w h" G
        "fst (position b) / w" "snd (position b) / h" 0 "attachS (readFbo v) 0 s"]
    by (auto simp: drawSolid_def getBuffer_def)
qed

lemma updateSolid_ok:
  assumes "readsNothing G" and "ready s"
  shows "\<exists>s'. updateSolid G dt b s =
    Inr (b\<lparr>position := (fst (position b) + fst (velocity b) * dt,
                         snd (position b) + snd (velocity b) * dt),
           velocity := (fst (velocity b), snd (velocity b))\<rparr>, s')"
proof -
  from assms(2) obtain pr sc where pr: "p_pressure s = Some pr" and sc: "p_simScale s = Some sc"
    by (auto simp: ready_def)
  let ?s1 = "s\<lparr>gl := (gl s)\<lparr>framebuffer := Some (fboTexture (readFbo pr))\<rparr>\<rparr>"
  let ?b1 = "b\<lparr>position := (fst (position b) + fst (velocity b) * dt,
                         snd (position b) + snd (velocity b) * dt),
           velocity := (fst (velocity b), snd (velocity b))\<rparr>"
  have "ready ?s1"
    using assms(2) by (simp add: ready_def)
  from drawSolid_ok [OF this, of "[fst (velocity b) * sc, snd (velocity b) * sc, 0]" G ?b1]
  obtain s' where "drawSolid G ?b1 ''_velocity'' (Some [fst (velocity b) * sc, snd (velocity b) * sc, 0]) ?s1 = Inr s'"
    by auto
  then show ?thesis
    by (simp add: updateSolid_def pr sc Let_def pForce_zeros [OF assms(1)])
qed

lemma updateSolidList_ok:
  "readsNothing G \<Longrightarrow> ready s \<Longrightarrow> \<exists>bs' s'. updateSolidList G dt bs s = Inr (bs', s')"
proof (induction bs arbitrary: s)
  case Nil
  then show ?case by simp
next
  case (Cons b bs)
  from updateSolid_ok [OF Cons.prems] obtain b1 s1 where u: "updateSolid G dt b s = Inr (b1, s1)"
    by blast
  have "ready s1"
    using updateSolid_frame(1) [OF u] Cons.prems(2) by (rule ready_onlyBuffers)
  from Cons.IH [OF Cons.prems(1) this] show ?case
    using u by auto
qed

lemma updateSolids_ok: "readsNothing G \<Longrightarrow> ready s \<Longrightarrow> \<exists>s'. updateSolids G dt s = Inr s'"
  using updateSolidList_ok [of G s dt "solids s"] by (auto simp: updateSolids_def)

lemma step_ok:
  assumes G: "declaresStepUniforms G" "readsNothing G" and r: "ready s"
  shows "\<exists>s'. step G dt s = Inr s'"
proof -
  from curlPass_ok [OF G(1) r] obtain s1 where p1: "curlPass G s = Inr s1" by blast
  have r1: "ready s1" using onlyBuffers_curlPass [OF p1] r by (rule ready_onlyBuffers)
  from vorticityPass_ok [OF G(1) r1] obtain s2 where p2: "vorticityPass G dt s1 = Inr s2" by blast
  have r2: "ready s2" using onlyBuffers_vorticityPass [OF p2] r1 by (rule ready_onlyBuffers)
  from divergencePass_ok [OF G(1) r2] obtain s3 where p3: "divergencePass G s2 = Inr s3" by blast
  have r3: "ready s3" using onlyBuffers_divergencePass [OF p3] r2 by (rule ready_onlyBuffers)
  from dissipatePressure_ok [OF r3] obtain s4 where p4: "dissipatePressure G dt s3 = Inr s4" by blast
  have r4: "ready s4" using onlyBuffers_dissipatePressure [OF p4] r3 by (rule ready_onlyBuffers)
  from pressurePass_ok [OF G(1) r4] obtain s5 where p5: "pressurePass G s4 = Inr s5" by blast
  have r5: "ready s5" using onlyBuffers_pressurePass [OF p5] r4 by (rule ready_onlyBuffers)
  from gradientSubtractPass_ok [OF G(1) r5] obtain s6 where p6: "gradientSubtractPass G s5 = Inr s6"
    by blast
  have r6: "ready s6" using onlyBuffers_gradientSubtractPass [OF p6] r5 by (rule ready_onlyBuffers)
  from advectVelocity_ok [OF r6] obtain s7 where p7: "advectVelocity G dt s6 = Inr s7" by blast
  have r7: "ready s7" using onlyBuffers_advectVelocity [OF p7] r6 by (rule ready_onlyBuffers)
  from advectDye_ok [OF r7] obtain s8 where p8: "advectDye G dt s7 = Inr s8" by blast
  have r8: "ready s8" using onlyBuffers_advectDye [OF p8] r7 by (rule ready_onlyBuffers)
  from updateSolids_ok [OF G(2) r8] obtain s9 where p9: "updateSolids G dt s8 = Inr s9" by blast
  show ?thesis
    by (simp add: step_def p1 p2 p3 p4 p5 p6 p7 p8 p9)
qed

lemma exampleGpu_ok: "declaresStepUniforms exampleGpu" "readsNothing exampleGpu"
  by (simp_all add: declaresStepUniforms_def readsNothing_def)

lemma exampleState_fields:
  "ready exampleState" "solids exampleState = [exampleSolid]" "simScale exampleState = 1"
  "p_simScale exampleState = Some 1" "p_width exampleState = Some 100" "p_height exampleState = Some 100"
  by (simp_all add: exampleState_def resizeIfNeeded_def sizeChanged_def newFluidDynamics_def
      resizeBuffers_def createDoubleTextureFBO_def createTextureFBO_def Let_def moveSolids_def
      ready_def)

lemma sampleSize_gl [simp]: "sampleSize (s\<lparr>gl := g\<rparr>) b = sampleSize s b"
  by (simp add: sampleSize_def)

lemma sampleRadius_gl [simp]: "sampleRadius (s\<lparr>gl := g\<rparr>) b = sampleRadius s b"
  by (simp add: sampleRadius_def)

lemma solidMass_gl [simp]: "solidMass (s\<lparr>gl := g\<rparr>) b = solidMass s b"
  by (simp add: solidMass_def)

lemma readPressure_framebuffer [simp]:
  "readPressure G (s\<lparr>gl := (gl s)\<lparr>framebuffer := f\<rparr>\<rparr>) b pr = readPressure G s b pr"
  by (simp add: readPressure_def)

lemma pForce_framebuffer [simp]:
  "pForce G (s\<lparr>gl := (gl s)\<lparr>framebuffer := f\<rparr>\<rparr>) b pr = pForce G s b pr"
  by (simp add: pForce_def cong: option.case_cong)

lemma initial_resize:
  "resizeIfNeeded exampleGpu ((newFluidDynamics freshContext)\<lparr>solids := [exampleSolid]\<rparr>)
    = Inr exampleState"
  by (simp add: exampleState_def resizeIfNeeded_def sizeChanged_def newFluidDynamics_def
      resizeBuffers_def createDoubleTextureFBO_def createTextureFBO_def Let_def moveSolids_def)

lemma truthyNumber_cases: "truthyNumber x = None \<or> truthyNumber x = Some MOther"
  by (cases x) (simp_all add: truthyNumber_def)

lemma privateMember_other:
  assumes "rs \<notin> {''dye'', ''velocity'', ''pressure'', ''divergence'', ''curl''}"
  shows "privateMember s (''_'' @ rs) = None \<or> privateMember s (''_'' @ rs) = Some MOther"
proof -
  have "privateMember s (''_'' @ rs) =
    (if rs = ''width'' then truthyNumber (p_width s)
     else if rs = ''height'' then truthyNumber (p_height s)
     else if rs = ''simScale'' then truthyNumber (p_simScale s)
     else if rs = ''dyeScale'' then truthyNumber (p_dyeScale s)
     else if rs = ''aspectRatio'' then truthyNumber (p_aspectRatio s)
     else if rs = ''now'' then truthyNumber (p_now s)
     else if ''_'' @ rs \<in> set otherMembers then Some MOther
     else None)"
    using assms by (simp add: privateMember_def)
  then show ?thesis
    using truthyNumber_cases by presburger
qed

lemma render_unknown:
  assumes "renderSource s \<notin> {''dye'', ''velocity'', ''pressure'', ''divergence'', ''curl''}"
  shows "render G s = Inl (CantFindRenderSource (renderSource s)) \<or> render G s = Inl TypeError"
  using privateMember_other [OF assms, of s]
  by (auto simp: render_def renderInputs_def Let_def split: option.splits tval.splits)

lemma defaultRenderTransforms_known:
  assumes "rs \<in> {''dye'', ''velocity'', ''pressure'', ''divergence'', ''curl''}"
  shows "\<exists>f. defaultRenderTransforms rs = Some f"
  using assms by (auto simp: defaultRenderTransforms_def)

lemma privateMember_known:
  assumes "rs \<in> {''dye'', ''velocity'', ''pressure'', ''divergence'', ''curl''}"
    and "buffersCreated s"
  shows "(\<exists>d. privateMember s (''_'' @ rs) = Some (MDouble d))
       \<or> (\<exists>f. privateMember s (''_'' @ rs) = Some (MSingle f))"
  using assms by (auto simp: privateMember_def buffersCreated_def)

lemma renderInputs_known:
  assumes "renderSource s \<in> {''dye'', ''velocity'', ''pressure'', ''divergence'', ''curl''}"
    and "buffersCreated s"
  shows "\<exists>m f. renderInputs s = Inr (m, f)"
proof -
  from defaultRenderTransforms_known [OF assms(1)] obtain f
    where f: "defaultRenderTransforms (renderSource s) = Some f" by blast
  from privateMember_known [OF assms] show ?thesis
    by (auto simp: renderInputs_def Let_def f split: option.splits tval.splits)
qed

lemma render_known:
  assumes "renderSource s \<in> {''dye'', ''velocity'', ''pressure'', ''divergence'', ''curl''}"
    and "buffersCreated s"
  shows "\<exists>s'. render G s = Inr s'"
  using renderInputs_known [OF assms] by (auto simp: render_def use_Transform)

lemma privateMember_gl [simp]: "privateMember (s\<lparr>gl := g\<rparr>) n = privateMember s n"
  by (simp add: privateMember_def)

lemma renderInputs_gl [simp]: "renderInputs (s\<lparr>gl := g\<rparr>) = renderInputs s"
  by (cases "privateMember s (''_'' @ renderSource s)")
     (simp_all add: renderInputs_def Let_def cong: tval.case_cong)

lemma blit_None:
  "blit G None s = s\<lparr>gl := drawElements G ((gl s)\<lparr>framebuffer := None,
               viewport := (left s, bottom s,
                            (case p_width s of None \<Rightarrow> 0 | Some w \<Rightarrow> w),
                            (case p_height s of None \<Rightarrow> 0 | Some h \<Rightarrow> h))\<rparr>)\<rparr>"
  by (simp add: blit_def)

lemma renderUniforms_idem: "renderUniforms m (renderUniforms m uv) = renderUniforms m uv"
  by (simp add: renderUniforms_def fun_eq_iff)

lemma beforeDraw_idem: "beforeDraw m f vp (beforeDraw m f vp g) = beforeDraw m f vp g"
  by (simp add: beforeDraw_def renderUniforms_idem)

lemma beforeDraw_screen: "beforeDraw m f vp (g\<lparr>screen := x\<rparr>) = (beforeDraw m f vp g)\<lparr>screen := x\<rparr>"
  by (simp add: beforeDraw_def)

lemma beforeDraw_eq:
  "((if length m = 16 then glUniform Transform ''value'' m else id)
                  (glUniform Transform ''uTexture'' [0]
                    ((attach f 0 g)\<lparr>currentProgram := Some Transform\<rparr>)))\<lparr>framebuffer := None,
               viewport := vp\<rparr> = beforeDraw m f vp g"
  by (simp add: beforeDraw_def renderUniforms_def glUniform_def attach_def)

lemma drawElements_screen:
  "currentProgram g = Some Transform \<Longrightarrow> framebuffer g = None \<Longrightarrow>
    drawElements G g = g\<lparr>screen := drawnScreen G g\<rparr>"
  by (simp add: drawElements_def drawnScreen_def Let_def split: prod.splits)

lemma sampler_cong:
  assumes "textureUnits g' = textureUnits g" and "textures g' = textures g"
  shows "sampler g' = sampler g"
proof (rule ext)
  fix unit
  show "sampler g' unit = sampler g unit"
    by (simp add: sampler_def assms cong: option.case_cong)
qed

lemma sampler_screen [simp]: "sampler (g\<lparr>screen := x\<rparr>) = sampler g"
  by (rule sampler_cong) simp_all

lemma drawnScreen_idem: "drawnScreen G (g\<lparr>screen := drawnScreen G g\<rparr>) = drawnScreen G g"
  by (simp add: drawnScreen_def fun_eq_iff split: prod.splits)

lemma render_eq:
  assumes "renderInputs s = Inr (m, f)"
  shows "render G s = Inr (s\<lparr>gl :=
    (beforeDraw m f (left s, bottom s, (case p_width s of None \<Rightarrow> 0 | Some w \<Rightarrow> w),
                     (case p_height s of None \<Rightarrow> 0 | Some h \<Rightarrow> h)) (gl s))
    \<lparr>screen := drawnScreen G (beforeDraw m f (left s, bottom s,
                     (case p_width s of None \<Rightarrow> 0 | Some w \<Rightarrow> w),
                     (case p_height s of None \<Rightarrow> 0 | Some h \<Rightarrow> h)) (gl s))\<rparr>\<rparr>)"
proof -
  have "render G s = Inr (s\<lparr>gl := drawElements G
     (beforeDraw m f (left s, bottom s, (case p_width s of None \<Rightarrow> 0 | Some w \<Rightarrow> w),
                     (case p_height s of None \<Rightarrow> 0 | Some h \<Rightarrow> h)) (gl s))\<rparr>)"
    by (simp add: render_def assms use_Transform blit_None attachS_def beforeDraw_eq)
  moreover have "currentProgram (beforeDraw m f vp g) = Some Transform"
    "framebuffer (beforeDraw m f vp g) = None" for vp g
    by (simp_all add: beforeDraw_def)
  ultimately show ?thesis
    by (simp add: drawElements_screen)
qed

lemma render_Inr:
  assumes "render G s = Inr s1"
  obtains m f where "renderInputs s = Inr (m, f)"
  using assms by (cases "renderInputs s") (auto simp: render_def)

lemma render_twice:
  assumes "render G s = Inr s1"
  shows "render G s1 = Inr s1" "textures (gl s1) = textures (gl s)" "s1\<lparr>gl := gl s\<rparr> = s"
proof -
  from assms obtain m f where i: "renderInputs s = Inr (m, f)"
    by (rule render_Inr)
  define vp where "vp = (left s, bottom s, (case p_width s of None \<Rightarrow> 0 | Some w \<Rightarrow> w),
                     (case p_height s of None \<Rightarrow> 0 | Some h \<Rightarrow> h))"
  define B where "B = beforeDraw m f vp (gl s)"
  have s1: "s1 = s\<lparr>gl := B\<lparr>screen := drawnScreen G B\<rparr>\<rparr>"
    using assms render_eq [OF i, of G] by (simp add: B_def vp_def)
  have i1: "renderInputs s1 = Inr (m, f)"
    by (simp add: s1 i)
  have "beforeDraw m f vp (gl s1) = B\<lparr>screen := drawnScreen G B\<rparr>"
    by (simp add: s1 B_def beforeDraw_screen beforeDraw_idem)
  then have "render G s1 = Inr (s1\<lparr>gl := (B\<lparr>screen := drawnScreen G B\<rparr>)
      \<lparr>screen := drawnScreen G (B\<lparr>screen := drawnScreen G B\<rparr>)\<rparr>\<rparr>)"
    using render_eq [OF i1, of G] by (simp add: s1 vp_def)
  then show "render G s1 = Inr s1"
    by (simp add: drawnScreen_idem s1)
  show "textures (gl s1) = textures (gl s)"
    by (simp add: s1 B_def beforeDraw_def)
  show "s1\<lparr>gl := gl s\<rparr> = s"
    by (simp add: s1)
qed

lemma pressureLoop_iterE:
  "pressureLoop G i s = iterE (nat (pressureIterations s - i)) (pressureIteration G) s"
proof (induction G i s rule: pressureLoop.induct)
  case (1 G i s)
  show ?case
  proof (cases "i < pressureIterations s")
    case True
    then have n: "nat (pressureIterations s - i) = Suc (nat (pressureIterations s - (i + 1)))"
      by simp
    have "bindE (pressureIteration G s) (pressureLoop G (i + 1))
      = bindE (pressureIteration G s)
          (iterE (nat (pressureIterations s - (i + 1))) (pressureIteration G))"
    proof (rule bindE_cong [OF refl])
      fix s1
      assume a: "pressureIteration G s = Inr s1"
      show "pressureLoop G (i + 1) s1
        = iterE (nat (pressureIterations s - (i + 1))) (pressureIteration G) s1"
        using "1.IH" [OF True a] pressureIterations_pressureIteration [OF a] by simp
    qed
    then show ?thesis
      using True by (simp add: pressureLoop.simps [of G i s] n del: nat_diff_distrib)
  next
    case False
    then show ?thesis
      by (simp add: pressureLoop.simps [of G i s])
  qed
qed

lemma pressurePass_iterE:
  assumes "p_divergence s = Some dv" and "p_velocity s = Some v"
  shows "pressurePass G s =
    bindE (use G Pressure [(''uDivergence'', Num 0), (''texelSize'', vec (dTexelSize v))]
             (attachS dv 0 s))
      (iterE (nat (pressureIterations s)) (pressureIteration G))"
proof -
  have "bindE (use G Pressure [(''uDivergence'', Num 0), (''texelSize'', vec (dTexelSize v))]
             (attachS dv 0 s)) (pressureLoop G 0)
    = bindE (use G Pressure [(''uDivergence'', Num 0), (''texelSize'', vec (dTexelSize v))]
             (attachS dv 0 s)) (iterE (nat (pressureIterations s)) (pressureIteration G))"
  proof (rule bindE_cong [OF refl])
    fix s1
    assume a: "use G Pressure [(''uDivergence'', Num 0), (''texelSize'', vec (dTexelSize v))]
             (attachS dv 0 s) = Inr s1"
    have "onlyBuffers s s1"
      using onlyBuffers_attachS onlyBuffers_use [OF a] by (rule onlyBuffers_trans)
    then have "pressureIterations s1 = pressureIterations s"
      by (simp add: onlyBuffers_def)
    then show "pressureLoop G 0 s1 = iterE (nat (pressureIterations s)) (pressureIteration G) s1"
      by (simp add: pressureLoop_iterE)
  qed
  then show ?thesis
    by (simp add: pressurePass_def assms)
qed

lemma drawElements_texture:
  "currentProgram g = Some prog \<Longrightarrow> framebuffer g = Some t \<Longrightarrow> textures g t = Some tx \<Longrightarrow>
    drawElements G g = g\<lparr>textures := (textures g)(t \<mapsto>
      tx\<lparr>texImage := (\<lambda>uv. storeAs (texFormat tx)
            (fragment G prog (uniformValues g prog) (sampler g) uv))\<rparr>)\<rparr>"
  by (simp add: drawElements_def Let_def)

lemma pressureIteration_effect:
  assumes "pressureIteration G s = Inr s'" and "p_pressure s = Some pr"
    and "textures (gl s) (fboTexture (writeFbo pr)) = Some tx"
    and "currentProgram (gl s) = Some Pressure"
  shows "p_pressure s' = Some (swapFbo pr)"
    "textureUnits (gl s') = (textureUnits (gl s))(1 \<mapsto> fboTexture (readFbo pr))"
    "uniformValues (gl s') Pressure = (uniformValues (gl s) Pressure)(''uPressure'' \<mapsto> [1])"
    "textures (gl s') = (textures (gl s))(fboTexture (writeFbo pr) \<mapsto>
        tx\<lparr>texImage := (\<lambda>uv. storeAs (texFormat tx)
              (fragment G Pressure ((uniformValues (gl s) Pressure)(''uPressure'' \<mapsto> [1]))
                 (sampler ((gl s)\<lparr>textureUnits :=
                            (textureUnits (gl s))(1 \<mapsto> fboTexture (readFbo pr))\<rparr>)) uv))\<rparr>)"
proof -
  define g3 where "g3 = (gl s)\<lparr>activeTexture := 1,
      textureUnits := (textureUnits (gl s))(1 \<mapsto> fboTexture (readFbo pr)),
      uniformValues := (uniformValues (gl s))(Pressure :=
         (uniformValues (gl s) Pressure)(''uPressure'' \<mapsto> [1])),
      framebuffer := Some (fboTexture (writeFbo pr)),
      viewport := (0, 0, fboWidth (writeFbo pr), fboHeight (writeFbo pr))\<rparr>"
  from assms(1,2) have "s' = swapBuffer ''_pressure'' (blit G (Some (writeFbo pr))
      ((attachS (readFbo pr) 1 s)\<lparr>gl := glUniform Pressure ''uPressure'' [1]
          (gl (attachS (readFbo pr) 1 s))\<rparr>))"
    by (auto simp: pressureIteration_def Let_def split: option.splits)
  then have s': "s' = s\<lparr>gl := drawElements G g3, p_pressure := Some (swapFbo pr)\<rparr>"
    using assms(2,4)
    by (simp add: swapBuffer_def blit_def attachS_def attach_def glUniform_def g3_def)
  have sm: "sampler g3 = sampler ((gl s)\<lparr>textureUnits :=
                            (textureUnits (gl s))(1 \<mapsto> fboTexture (readFbo pr))\<rparr>)"
    by (rule sampler_cong) (simp_all add: g3_def)
  have d: "drawElements G g3 = g3\<lparr>textures := (textures g3)(fboTexture (writeFbo pr) \<mapsto>
      tx\<lparr>texImage := (\<lambda>uv. storeAs (texFormat tx)
            (fragment G Pressure (uniformValues g3 Pressure) (sampler g3) uv))\<rparr>)\<rparr>"
    by (rule drawElements_texture) (simp_all add: g3_def assms(3,4))
  show "p_pressure s' = Some (swapFbo pr)"
    by (simp add: s')
  show "textureUnits (gl s') = (textureUnits (gl s))(1 \<mapsto> fboTexture (readFbo pr))"
    by (simp add: s' d) (simp add: g3_def)
  show "uniformValues (gl s') Pressure = (uniformValues (gl s) Pressure)(''uPressure'' \<mapsto> [1])"
    by (simp add: s' d) (simp add: g3_def)
  have "textures (gl s') = (textures g3)(fboTexture (writeFbo pr) \<mapsto>
      tx\<lparr>texImage := (\<lambda>uv. storeAs (texFormat tx)
            (fragment G Pressure (uniformValues g3 Pressure) (sampler g3) uv))\<rparr>)"
    by (simp add: s' d)
  moreover have "textures g3 = textures (gl s)"
    "uniformValues g3 Pressure = (uniformValues (gl s) Pressure)(''uPressure'' \<mapsto> [1])"
    by (simp_all add: g3_def)
  ultimately show "textures (gl s') = (textures (gl s))(fboTexture (writeFbo pr) \<mapsto>
        tx\<lparr>texImage := (\<lambda>uv. storeAs (texFormat tx)
              (fragment G Pressure ((uniformValues (gl s) Pressure)(''uPressure'' \<mapsto> [1]))
                 (sampler ((gl s)\<lparr>textureUnits :=
                            (textureUnits (gl s))(1 \<mapsto> fboTexture (readFbo pr))\<rparr>)) uv))\<rparr>)"
    by (simp only: sm)
qed

lemma exampleState_buffers:
  "p_dye exampleState = Some \<lparr>dW = 100, dH = 100, dTexelSize = (1 / 100, 1 / 100),
      fbo1 = \<lparr>fboTexture = 0, fboWidth = 100, fboHeight = 100, fboTexelSize = (1 / 100, 1 / 100)\<rparr>,
      fbo2 = \<lparr>fboTexture = 1, fboWidth = 100, fboHeight = 100, fboTexelSize = (1 / 100, 1 / 100)\<rparr>\<rparr>"
  "p_velocity exampleState = Some \<lparr>dW = 100, dH = 100, dTexelSize = (1 / 100, 1 / 100),
      fbo1 = \<lparr>fboTexture = 2, fboWidth = 100, fboHeight = 100, fboTexelSize = (1 / 100, 1 / 100)\<rparr>,
      fbo2 = \<lparr>fboTexture = 3, fboWidth = 100, fboHeight = 100, fboTexelSize = (1 / 100, 1 / 100)\<rparr>\<rparr>"
  "p_pressure exampleState = Some \<lparr>dW = 100, dH = 100, dTexelSize = (1 / 100, 1 / 100),
      fbo1 = \<lparr>fboTexture = 4, fboWidth = 100, fboHeight = 100, fboTexelSize = (1 / 100, 1 / 100)\<rparr>,
      fbo2 = \<lparr>fboTexture = 5, fboWidth = 100, fboHeight = 100, fboTexelSize = (1 / 100, 1 / 100)\<rparr>\<rparr>"
  "p_divergence exampleState =
      Some \<lparr>fboTexture = 6, fboWidth = 100, fboHeight = 100, fboTexelSize = (1 / 100, 1 / 100)\<rparr>"
  "p_curl exampleState =
      Some \<lparr>fboTexture = 7, fboWidth = 100, fboHeight = 100, fboTexelSize = (1 / 100, 1 / 100)\<rparr>"
  by (simp_all add: exampleState_def resizeIfNeeded_def sizeChanged_def newFluidDynamics_def
      resizeBuffers_def createDoubleTextureFBO_def createTextureFBO_def Let_def moveSolids_def
      freshContext_def)

lemma exampleState_textures:
  "textures (gl exampleState) =
    [0 \<mapsto> \<lparr>texFormat = RGBA16F, texImage = (\<lambda>uv. (0, 0, 0, 0))\<rparr>,
     1 \<mapsto> \<lparr>texFormat = RGBA16F, texImage = (\<lambda>uv. (0, 0, 0, 0))\<rparr>,
     2 \<mapsto> \<lparr>texFormat = RG16F, texImage = (\<lambda>uv. (0, 0, 0, 1))\<rparr>,
     3 \<mapsto> \<lparr>texFormat = RG16F, texImage = (\<lambda>uv. (0, 0, 0, 1))\<rparr>,
     4 \<mapsto> \<lparr>texFormat = R16F, texImage = (\<lambda>uv. (0, 0, 0, 1))\<rparr>,
     5 \<mapsto> \<lparr>texFormat = R16F, texImage = (\<lambda>uv. (0, 0, 0, 1))\<rparr>,
     6 \<mapsto> \<lparr>texFormat = R16F, texImage = (\<lambda>uv. (0, 0, 0, 1))\<rparr>,
     7 \<mapsto> \<lparr>texFormat = R16F, texImage = (\<lambda>uv. (0, 0, 0, 1))\<rparr>]"
  "nextHandle (gl exampleState) = 8"
  by (simp_all add: exampleState_def resizeIfNeeded_def sizeChanged_def newFluidDynamics_def
      resizeBuffers_def createDoubleTextureFBO_def createTextureFBO_def Let_def moveSolids_def
      freshContext_def eval_nat_numeral)

lemma splatShader_centre:
  assumes "u ''point'' = Some [px, py]" and "u ''color'' = Some [cr, cg, cb]"
  shows "splatShader u samp (px, py) = (cr, cg, cb, 1)"
  by (simp add: splatShader_def uvec2_def uvec3_def assms mat2mul_def Let_def split: prod.splits)

lemma setDye_effect:
  assumes "setDye G x y angle majorSize minorSize (Some [r, g, b]) random s = Inr s'"
    and "p_dye s = Some d" and "p_width s = Some w" and "p_height s = Some h"
    and "textures (gl s) (fboTexture (writeFbo d)) = Some tx"
  shows "uniformValues (gl s') Splat ''color'' = Some [r * 2.72, g * 2.72, b * 2.72]"
    "p_dye s' = Some (swapFbo d)"
    "\<exists>tx'. textures (gl s') (fboTexture (readFbo (swapFbo d))) = Some tx'
       \<and> texImage tx' (x / w, y / h) = storeAs (texFormat tx) (r * 2.72, g * 2.72, b * 2.72, 1)"
proof -
  define g3 where "g3 = (glUniform Splat ''transform'' (splatTransform (- angle) majorSize minorSize w h)
     (glUniform Splat ''color'' [r * 2.72, g * 2.72, b * 2.72]
       (glUniform Splat ''point'' [x / w, y / h] (glUniform Splat ''uSource'' [0]
         ((attach (readFbo d) 0 (gl s))\<lparr>currentProgram := Some Splat\<rparr>)))))
     \<lparr>framebuffer := Some (fboTexture (writeFbo d)),
      viewport := (0, 0, fboWidth (writeFbo d), fboHeight (writeFbo d))\<rparr>"
  have l: "length (splatTransform (- angle) majorSize minorSize w h) = 4"
    by (simp add: splatTransform_def)
  have s': "s' = s\<lparr>gl := drawElements G g3, p_dye := Some (swapFbo d)\<rparr>"
    using assms(1-4) l
    by (simp add: setDye_def use_Splat swapBuffer_def blit_def attachS_def g3_def)
  have u: "uniformValues g3 Splat ''point'' = Some [x / w, y / h]"
    "uniformValues g3 Splat ''color'' = Some [r * 2.72, g * 2.72, b * 2.72]"
    by (simp_all add: g3_def glUniform_def attach_def)
  have d: "drawElements G g3 = g3\<lparr>textures := (textures g3)(fboTexture (writeFbo d) \<mapsto>
      tx\<lparr>texImage := (\<lambda>uv. storeAs (texFormat tx)
            (fragment G Splat (uniformValues g3 Splat) (sampler g3) uv))\<rparr>)\<rparr>"
    by (rule drawElements_texture) (simp_all add: g3_def glUniform_def attach_def assms(5))
  show "uniformValues (gl s') Splat ''color'' = Some [r * 2.72, g * 2.72, b * 2.72]"
    by (simp add: s' d u)
  show "p_dye s' = Some (swapFbo d)"
    by (simp add: s')
  show "\<exists>tx'. textures (gl s') (fboTexture (readFbo (swapFbo d))) = Some tx'
       \<and> texImage tx' (x / w, y / h) = storeAs (texFormat tx) (r * 2.72, g * 2.72, b * 2.72, 1)"
    by (simp add: s' d readFbo_def swapFbo_def writeFbo_def fragment_def
        splatShader_centre [OF u])
qed

lemma setDye_ok:
  assumes "p_dye s = Some d" and "p_width s = Some w" and "p_height s = Some h"
  shows "\<exists>s'. setDye G x y angle majorSize minorSize (Some [r, g, b]) random s = Inr s'"
proof -
  have "length (splatTransform (- angle) majorSize minorSize w h) = 4"
    by (simp add: splatTransform_def)
  then show ?thesis
    by (simp add: setDye_def assms use_Splat)
qed

lemma doubleHasSize_swap [simp]: "doubleHasSize w h (map_option swapFbo d) = doubleHasSize w h d"
  by (cases d) (auto simp: doubleHasSize_def swapFbo_def)

lemma hasResolution_gl [simp]: "hasResolution sw sh dw dh (s\<lparr>gl := g\<rparr>) = hasResolution sw sh dw dh s"
  by (simp add: hasResolution_def)

lemma hasResolution_swapBuffer [simp]:
  "hasResolution sw sh dw dh (swapBuffer name s) = hasResolution sw sh dw dh s"
  by (simp add: hasResolution_def swapBuffer_def)

lemma hasResolution_blit [simp]:
  "hasResolution sw sh dw dh (blit G target s) = hasResolution sw sh dw dh s"
  by (cases target) (simp_all add: blit_def)

lemma hasResolution_attachS [simp]:
  "hasResolution sw sh dw dh (attachS f u s) = hasResolution sw sh dw dh s"
  by (simp add: attachS_def)

lemma hasResolution_copyOldBuffer:
  assumes "copyOldBuffer G w h entry s = Inr s'"
  shows "hasResolution sw sh dw dh s' = hasResolution sw sh dw dh s"
proof -
  from assms obtain old where o: "snd entry = Some old"
    by (cases "snd entry") (simp_all add: copyOldBuffer_def)
  from assms o obtain tr s1 new where
    u: "use G Transform [(''value'', F32 tr), (''uTexture'', Num 0)] (attachS (readFbo old) 0 s) = Inr s1"
    and e: "s' = (swapBuffer (fst entry) (blit G (Some (writeFbo new)) s1))
                 \<lparr>gl := deleteDouble old (gl (swapBuffer (fst entry) (blit G (Some (writeFbo new)) s1)))\<rparr>"
    by (auto simp: copyOldBuffer_def Let_def bindE_Inr_iff split: option.splits)
  from use_Inr [OF u] obtain g where "s1 = (attachS (readFbo old) 0 s)\<lparr>gl := g\<rparr>"
    by blast
  then show ?thesis
    by (simp add: e)
qed

lemma hasResolution_copyOldBuffers:
  "copyOldBuffers G w h entries s = Inr s' \<Longrightarrow>
    hasResolution sw sh dw dh s' = hasResolution sw sh dw dh s"
proof (induction entries arbitrary: s)
  case Nil
  then show ?case by simp
next
  case (Cons entry rest)
  from Cons.prems obtain s1 where a: "copyOldBuffer G w h entry s = Inr s1"
    and b: "copyOldBuffers G w h rest s1 = Inr s'"
    by (auto simp: bindE_Inr_iff)
  show ?case
    using hasResolution_copyOldBuffer [OF a] Cons.IH [OF b] by simp
qed

lemma hasResolution_resizeBuffers:
  assumes "resizeBuffers G c s = Inr s'"
  shows "hasResolution (width s * simScale s) (height s * simScale s)
           (width s * dyeScale s) (height s * dyeScale s) s'"
proof -
  from assms obtain s0 where c: "copyOldBuffers G (width s * simScale s) (height s * simScale s)
      (if p_dye s \<noteq> None \<and> c then map (\<lambda>name. (name, getBuffer name s)) stateBuffers else []) s0 = Inr s'"
    and h: "hasResolution (width s * simScale s) (height s * simScale s)
           (width s * dyeScale s) (height s * dyeScale s) s0"
    by (simp add: resizeBuffers_def Let_def createDoubleTextureFBO_def createTextureFBO_def
        hasResolution_def doubleHasSize_def singleHasSize_def split: prod.splits)
  show ?thesis
    using hasResolution_copyOldBuffers [OF c] h by simp
qed

lemma resizeBuffers_config:
  assumes "resizeBuffers G c s = Inr s'"
  shows "width s' = width s" "height s' = height s" "simScale s' = simScale s"
    "dyeScale s' = dyeScale s" "p_width s' = p_width s" "p_height s' = p_height s"
proof -
  from assms obtain s0 where "onlyBuffers s0 s'" and "width s0 = width s" "height s0 = height s"
    "simScale s0 = simScale s" "dyeScale s0 = dyeScale s" "p_width s0 = p_width s"
    "p_height s0 = p_height s"
    by (auto simp: resizeBuffers_def Let_def split: prod.splits dest!: onlyBuffers_copyOldBuffers)
  then show "width s' = width s" "height s' = height s" "simScale s' = simScale s"
    "dyeScale s' = dyeScale s" "p_width s' = p_width s" "p_height s' = p_height s"
    by (simp_all add: onlyBuffers_def)
qed

lemma hasResolution_moveSolids:
  "moveSolids s = Inr s' \<Longrightarrow> hasResolution sw sh dw dh s' = hasResolution sw sh dw dh s"
  by (auto simp: moveSolids_def hasResolution_def split: option.splits if_splits)

lemma moveSolids_config:
  assumes "moveSolids s = Inr s'"
  shows "width s' = width s" "height s' = height s" "simScale s' = simScale s"
    "dyeScale s' = dyeScale s"
  using assms by (auto simp: moveSolids_def split: option.splits if_splits)

lemma oddState_resize:
  "\<exists>s'. resizeIfNeeded exampleGpu oddState = Inr s'"
  by (simp add: oddState_def resizeIfNeeded_def sizeChanged_def newFluidDynamics_def
      resizeBuffers_def createDoubleTextureFBO_def createTextureFBO_def Let_def moveSolids_def)

section \<open>Results\<close>

subsection \<open>The resolution of the buffers\<close>

text \<open>
  C2, as the code has it. After a resize check that found the width, the height or one
  of the two scale factors changed, and returned, the velocity, pressure, divergence and
  curl buffers record the size \<open>width * simScale\<close> by \<open>height * simScale\<close> and the dye
  buffer \<open>width * dyeScale\<close> by \<open>height * dyeScale\<close>: the products as they are, with no
  rounding. The sizes the check compares against are brought up to date, so the next
  check finds nothing changed.
\<close>

theorem resize_gives_unrounded_resolution:
  assumes "resizeIfNeeded G s = Inr s'" and "sizeChanged s"
  shows "hasResolution (width s * simScale s) (height s * simScale s)
           (width s * dyeScale s) (height s * dyeScale s) s'
    \<and> p_width s' = Some (width s) \<and> p_height s' = Some (height s)
    \<and> p_simScale s' = Some (simScale s) \<and> p_dyeScale s' = Some (dyeScale s)
    \<and> \<not> sizeChanged s'"
proof -
  from assms obtain s1 s2 where a: "resizeBuffers G True s = Inr s1" and b: "moveSolids s1 = Inr s2"
    and c: "s' = s2\<lparr>p_width := Some (width s2), p_height := Some (height s2),
              p_aspectRatio := (if height s2 = 0 then None else Some (width s2 / height s2)),
              p_simScale := Some (simScale s2), p_dyeScale := Some (dyeScale s2)\<rparr>"
    by (rule resizeIfNeeded_Inr)
  have "hasResolution (width s * simScale s) (height s * simScale s)
           (width s * dyeScale s) (height s * dyeScale s) s2"
    using hasResolution_resizeBuffers [OF a] hasResolution_moveSolids [OF b] by simp
  then have "hasResolution (width s * simScale s) (height s * simScale s)
           (width s * dyeScale s) (height s * dyeScale s) s'"
    by (simp add: c hasResolution_def)
  moreover have "width s2 = width s" "height s2 = height s" "simScale s2 = simScale s"
    "dyeScale s2 = dyeScale s"
    using resizeBuffers_config [OF a] moveSolids_config [OF b] by simp_all
  ultimately show ?thesis
    by (simp add: c sizeChanged_def)
qed

theorem resize_gives_unrounded_resolution_witness:
  "sizeChanged oddState
   \<and> (\<exists>s'. resizeIfNeeded exampleGpu oddState = Inr s' \<and> hasResolution (101 / 2) 50 101 100 s')"
proof -
  have c: "sizeChanged oddState"
    by (simp add: sizeChanged_def oddState_def newFluidDynamics_def)
  obtain s' where r: "resizeIfNeeded exampleGpu oddState = Inr s'"
    using oddState_resize by blast
  from resize_gives_unrounded_resolution [OF r c] r c show ?thesis
    by (auto simp: oddState_def newFluidDynamics_def)
qed

text \<open>
  C2, as the claim has it, fails: for a width of 101 and a simulation scale of one half
  the velocity buffer is made 50.5 wide, not 51.
\<close>

theorem resize_resolution_is_not_rounded_up:
  "resizeIfNeeded exampleGpu oddState = Inr oddResized
   \<and> sizeChanged oddState
   \<and> width oddState * simScale oddState = 101 / 2
   \<and> real_of_int \<lceil>width oddState * simScale oddState\<rceil> = 51
   \<and> map_option dW (p_velocity oddResized) = Some (101 / 2)
   \<and> \<not> hasResolution (real_of_int \<lceil>width oddState * simScale oddState\<rceil>)
                       (real_of_int \<lceil>height oddState * simScale oddState\<rceil>)
                       (real_of_int \<lceil>width oddState * dyeScale oddState\<rceil>)
                       (real_of_int \<lceil>height oddState * dyeScale oddState\<rceil>) oddResized"
  by (simp add: oddResized_def oddState_def resizeIfNeeded_def sizeChanged_def newFluidDynamics_def
      resizeBuffers_def createDoubleTextureFBO_def createTextureFBO_def Let_def moveSolids_def
      hasResolution_def doubleHasSize_def)

subsection \<open>The mass of a solid\<close>




subsection \<open>What a step changes in a solid\<close>

text \<open>
  C9. One simulation step, and the resize check of a tick, leave the radius, the mass
  and the density of every solid of the list as they were, and the list as long as it
  was: the only fields of a solid they assign are position and velocity.
\<close>

theorem step_keeps_radius_mass_density:
  "(step G dt s = Inr s' \<longrightarrow>
      map radius (solids s') = map radius (solids s)
      \<and> map mass (solids s') = map mass (solids s)
      \<and> map density (solids s') = map density (solids s))
   \<and> (resizeIfNeeded G t = Inr t' \<longrightarrow>
      map radius (solids t') = map radius (solids t)
      \<and> map mass (solids t') = map mass (solids t)
      \<and> map density (solids t') = map density (solids t))"
  using solids_step [of G dt s s'] solids_resizeIfNeeded [of G t t'] by blast

theorem step_keeps_radius_mass_density_witness:
  "(\<exists>s'. step exampleGpu (1 / 60) exampleState = Inr s'
        \<and> map radius (solids s') = [10] \<and> map mass (solids s') = [None]
        \<and> map density (solids s') = [Some 2])
   \<and> (\<exists>t'. resizeIfNeeded exampleGpu
               ((newFluidDynamics freshContext)\<lparr>solids := [exampleSolid]\<rparr>) = Inr t'
        \<and> map radius (solids t') = [10] \<and> map mass (solids t') = [None]
        \<and> map density (solids t') = [Some 2])"
proof -
  obtain s' where a: "step exampleGpu (1 / 60) exampleState = Inr s'"
    using step_ok [OF exampleGpu_ok exampleState_fields(1)] by blast
  from step_keeps_radius_mass_density [of exampleGpu "1 / 60" exampleState s'
      "(newFluidDynamics freshContext)\<lparr>solids := [exampleSolid]\<rparr>" exampleState]
    a initial_resize
  show ?thesis
    by (simp add: exampleState_fields exampleSolid_def)
qed

subsection \<open>The pressure solve\<close>



subsection \<open>Dye splats\<close>

text \<open>
  C10. A call of \<open>setDye\<close> with an explicit colour \<open>[r, g, b]\<close> that returns hands the
  splat shader the colour multiplied componentwise by 2.72, and the dye that the new read
  buffer holds at the centre of the splat, \<open>(x / _width, y / _height)\<close>, is that scaled
  colour: \<open>(2.72, 0, 0)\<close> for the full-intensity red \<open>[1, 0, 0]\<close>.
\<close>

theorem setDye_splats_scaled_color:
  assumes "setDye G x y angle majorSize minorSize (Some [r, g, b]) random s = Inr s'"
    and "p_dye s = Some d" and "p_width s = Some w" and "p_height s = Some h"
    and "textures (gl s) (fboTexture (writeFbo d)) = Some tx" and "texFormat tx = RGBA16F"
  shows "uniformValues (gl s') Splat ''color'' = Some [r * 2.72, g * 2.72, b * 2.72]
    \<and> p_dye s' = Some (swapFbo d)
    \<and> (\<exists>tx'. textures (gl s') (fboTexture (readFbo (swapFbo d))) = Some tx'
          \<and> texImage tx' (x / w, y / h) = (r * 2.72, g * 2.72, b * 2.72, 1))"
  using setDye_effect [OF assms(1-5)] assms(6) by simp

theorem setDye_splats_scaled_color_witness:
  "\<exists>s' d tx'. setDye exampleGpu 50 50 0 10 10 (Some [1, 0, 0]) 0 exampleState = Inr s'
      \<and> p_dye s' = Some d \<and> textures (gl s') (fboTexture (readFbo d)) = Some tx'
      \<and> texImage tx' (1 / 2, 1 / 2) = (2.72, 0, 0, 1)"
proof -
  let ?d = "\<lparr>dW = 100, dH = 100, dTexelSize = (1 / 100, 1 / 100),
      fbo1 = \<lparr>fboTexture = 0, fboWidth = 100, fboHeight = 100, fboTexelSize = (1 / 100, 1 / 100)\<rparr>,
      fbo2 = \<lparr>fboTexture = 1, fboWidth = 100, fboHeight = 100, fboTexelSize = (1 / 100, 1 / 100)\<rparr>\<rparr>"
  let ?tx = "\<lparr>texFormat = RGBA16F, texImage = (\<lambda>uv. (0, 0, 0, 0))\<rparr>"
  have d: "p_dye exampleState = Some ?d"
    by (rule exampleState_buffers(1))
  have t: "textures (gl exampleState) (fboTexture (writeFbo ?d)) = Some ?tx"
    by (simp add: exampleState_textures writeFbo_def)
  have f: "texFormat ?tx = RGBA16F"
    by simp
  obtain s' where a: "setDye exampleGpu 50 50 0 10 10 (Some [1, 0, 0]) 0 exampleState = Inr s'"
    using setDye_ok [OF d exampleState_fields(5,6)] by blast
  from setDye_splats_scaled_color [OF a d exampleState_fields(5,6) t f] a show ?thesis
    by auto
qed

subsection \<open>Rendering\<close>

text \<open>
  C6. When \<open>renderSource\<close> is none of dye, velocity, pressure, divergence and curl,
  \<open>render\<close> raises: the string ``Can't find ... render source'' when the instance has no
  truthy member of that name, a \<^verbatim>\<open>TypeError\<close> when the name hits a member that is no
  buffer. For each of the five names it returns when the buffers have been created.
\<close>

theorem render_source_checked:
  "(renderSource s \<notin> {''dye'', ''velocity'', ''pressure'', ''divergence'', ''curl''}
      \<longrightarrow> render G s = Inl (CantFindRenderSource (renderSource s)) \<or> render G s = Inl TypeError)
   \<and> (renderSource s \<in> {''dye'', ''velocity'', ''pressure'', ''divergence'', ''curl''}
        \<and> buffersCreated s
      \<longrightarrow> (\<exists>s'. render G s = Inr s'))"
  using render_unknown [of s G] render_known [of s G] by blast

theorem render_source_checked_witness:
  "(render exampleGpu (exampleState\<lparr>renderSource := ''solid''\<rparr>)
       = Inl (CantFindRenderSource ''solid'')
     \<or> render exampleGpu (exampleState\<lparr>renderSource := ''solid''\<rparr>) = Inl TypeError)
   \<and> (\<exists>s'. render exampleGpu (exampleState\<lparr>renderSource := ''pressure''\<rparr>) = Inr s')"
proof -
  have "buffersCreated (exampleState\<lparr>renderSource := ''pressure''\<rparr>)"
    using exampleState_fields(1) by (simp add: buffersCreated_def ready_def)
  then show ?thesis
    using render_source_checked [of "exampleState\<lparr>renderSource := ''solid''\<rparr>" exampleGpu]
      render_source_checked [of "exampleState\<lparr>renderSource := ''pressure''\<rparr>" exampleGpu]
    by simp
qed

text \<open>
  C7. A call of \<open>render\<close> that returns leaves the instance in a state in which a second
  call changes nothing at all: it returns the same state, so the screen is the same. The
  first call changes the context only: no texture, and no field of the instance (the
  double buffers and their roles among them).
\<close>

theorem render_twice_same_output:
  assumes "render G s = Inr s1"
  shows "render G s1 = Inr s1 \<and> textures (gl s1) = textures (gl s) \<and> s1\<lparr>gl := gl s\<rparr> = s"
  using render_twice [OF assms] by simp

theorem render_twice_same_output_witness:
  "\<exists>s1. render exampleGpu exampleState = Inr s1 \<and> render exampleGpu s1 = Inr s1
        \<and> textures (gl s1) = textures (gl exampleState)"
proof -
  have "buffersCreated exampleState"
    using exampleState_fields(1) by (simp add: buffersCreated_def ready_def)
  moreover have "renderSource exampleState = ''dye''"
    by (simp add: exampleState_def resizeIfNeeded_def sizeChanged_def newFluidDynamics_def
      resizeBuffers_def createDoubleTextureFBO_def createTextureFBO_def Let_def moveSolids_def)
  ultimately obtain s1 where r: "render exampleGpu exampleState = Inr s1"
    using render_known [of exampleState exampleGpu] by auto
  from render_twice_same_output [OF r] r show ?thesis
    by blast
qed

subsection \<open>The time step of a tick\<close>




subsection \<open>Half-float decoding\<close>

text \<open>
  C5. The half-float decode function is meant to perform the IEEE 754 half-to-single
  conversion for every 16-bit input, subnormals included. The five literal vectors
  \<open>0x3c00\<close>, \<open>0x8000\<close>, \<open>0x7c00\<close>, \<open>0xfc00\<close> and \<open>0x0000\<close> decode to 1.0, -0.0,
  +Infinity, -Infinity and 0.0. The subnormal \<open>0x0002\<close>, which denotes \<open>2 / 2^24\<close>,
  decodes to the pattern \<open>0x34800000\<close>, which denotes \<open>1 / 2^22\<close>: twice the value. The
  mask \<open>0x01FF\<close> removes the leading fraction bit only when it is bit 9; a leading bit
  lower down is shifted onto bit 23, the lowest bit of the exponent.
\<close>

theorem uInt16ToFloat32_subnormal_0x0002:
  "uInt16ToFloat32 0x0002 = 0x34800000
   \<and> float32Value (uInt16ToFloat32 0x0002) = Finite False (1 / 2 ^ 22)
   \<and> float16Value 0x0002 = Finite False (1 / 2 ^ 23)
   \<and> map (\<lambda>h. float32Value (uInt16ToFloat32 h)) [0x3c00, 0x8000, 0x7c00, 0xfc00, 0x0000]
       = [Finite False 1, Finite True 0, Infinity False, Infinity True, Finite False 0]"
proof -
  have bits: "uInt16ToFloat32 0x0002 = 0x34800000"
    "uInt16ToFloat32 0x3c00 = 0x3F800000" "uInt16ToFloat32 0x8000 = 0x80000000"
    "uInt16ToFloat32 0x7c00 = 0x7F800000" "uInt16ToFloat32 0xfc00 = 0xFF800000"
    "uInt16ToFloat32 0x0000 = 0"
    by code_simp+
  have vals: "float32Value 0x34800000 = Finite False (1 / 2 ^ 22)"
    "float32Value 0x3F800000 = Finite False 1" "float32Value 0x80000000 = Finite True 0"
    "float32Value 0x7F800000 = Infinity False" "float32Value 0xFF800000 = Infinity True"
    "float32Value 0 = Finite False 0"
    by (simp_all add: float32Value_def Let_def)
  have half: "float16Value 0x0002 = Finite False (1 / 2 ^ 23)"
    by (simp add: float16Value_def Let_def)
  show ?thesis
    by (simp only: bits vals half list.map)
qed

end
